theory Spec2Isabelle
  imports Complex_Main "HOL-Library.AList" "HOL-Library.Log_Nat"
begin

section \<open>Python values\<close>

text \<open>
  The accuracies of the learner profile are Python \<open>float\<close>s that the program only
  compares with short decimal constants and rounds to one decimal; they are modelled by
  the exact quotients of their two counters. The score and the duration that
  \<open>complete_session\<close> returns are modelled as the floats they are, by \<open>double_of\<close> below.
  A \<open>datetime\<close> is the number of seconds since some fixed instant; \<open>datetime.now()\<close> is an
  argument of the operation that reads the clock. Strings are ASCII texts.
\<close>

type_synonym datetime = rat

text \<open>
  The exceptions the modelled code raises: the three \<open>ValueError\<close>s of the two managers
  (told apart by their message), and the two built-in errors of list indexing and of
  division.
\<close>

datatype py_error =
    ProfileNotFound string
  | SessionNotFound string
  | QuestionIndexOutOfRange int
  | IndexError
  | ZeroDivisionError

subsection \<open>String methods\<close>

definition ascii_uppercase :: string where
  "ascii_uppercase = ''ABCDEFGHIJKLMNOPQRSTUVWXYZ''"

definition ascii_lowercase :: string where
  "ascii_lowercase = ''abcdefghijklmnopqrstuvwxyz''"

definition char_lower :: "char \<Rightarrow> char" where
  "char_lower c =
     (case map_of (zip ascii_uppercase ascii_lowercase) c of Some d \<Rightarrow> d | None \<Rightarrow> c)"

definition char_upper :: "char \<Rightarrow> char" where
  "char_upper c =
     (case map_of (zip ascii_lowercase ascii_uppercase) c of Some d \<Rightarrow> d | None \<Rightarrow> c)"

definition is_cased :: "char \<Rightarrow> bool" where
  "is_cased c \<longleftrightarrow> c \<in> set (ascii_uppercase @ ascii_lowercase)"

text \<open>The characters \<open>str.isspace\<close> accepts below 128: codes 9 to 13 and 28 to 32.\<close>

definition is_space :: "char \<Rightarrow> bool" where
  "is_space c \<longleftrightarrow>
     c \<in> set [CHR 0x09, CHR 0x0A, CHR 0x0B, CHR 0x0C, CHR 0x0D,
              CHR 0x1C, CHR 0x1D, CHR 0x1E, CHR 0x1F, CHR 0x20]"

definition lower :: "string \<Rightarrow> string" where
  "lower s = map char_lower s"

definition strip :: "string \<Rightarrow> string" where
  "strip s = rev (dropWhile is_space (rev (dropWhile is_space s)))"

text \<open>\<open>s.replace(old, new)\<close> for a non-empty \<open>old\<close>: leftmost, non-overlapping occurrences.\<close>

fun replace_from :: "nat \<Rightarrow> string \<Rightarrow> string \<Rightarrow> string \<Rightarrow> string" where
  "replace_from skip old new [] = []"
| "replace_from (Suc k) old new (c # cs) = replace_from k old new cs"
| "replace_from 0 old new (c # cs) =
     (if take (length old) (c # cs) = old
      then new @ replace_from (length old - 1) old new cs
      else c # replace_from 0 old new cs)"

definition replace :: "string \<Rightarrow> string \<Rightarrow> string \<Rightarrow> string" where
  "replace old new s = replace_from 0 old new s"

text \<open>
  \<open>s.title()\<close>: a cased character is upper-cased when the character before it is not
  cased, and lower-cased otherwise.
\<close>

fun title_from :: "bool \<Rightarrow> string \<Rightarrow> string" where
  "title_from prev_cased [] = []"
| "title_from prev_cased (c # cs) =
     (if prev_cased then char_lower c else char_upper c) # title_from (is_cased c) cs"

definition title :: "string \<Rightarrow> string" where
  "title s = title_from False s"

text \<open>The synthetic skill id \<open>f"topic_{topic.lower().replace(' ', '_')}"\<close>.\<close>

definition topic_skill_id :: "string \<Rightarrow> string" where
  "topic_skill_id t = ''topic_'' @ replace '' '' ''_'' (lower t)"

subsection \<open>Number formatting and rounding\<close>

fun digits_of_nat :: "nat \<Rightarrow> string" where
  "digits_of_nat n =
     (if n < 10 then [''0123456789'' ! n]
      else digits_of_nat (n div 10) @ [''0123456789'' ! (n mod 10)])"

declare digits_of_nat.simps [simp del]

definition str_of_int :: "int \<Rightarrow> string" where
  "str_of_int i = (if i < 0 then ''-'' @ digits_of_nat (nat (- i)) else digits_of_nat (nat i))"

text \<open>Rounding to the nearest integer, ties to the even one, as \<open>round\<close> and \<open>:.0f\<close> do.\<close>

definition round_half_even :: "rat \<Rightarrow> int" where
  "round_half_even x =
     (let f = \<lfloor>x\<rfloor>; d = x - of_int f
      in if d < 1 / 2 then f else if 1 / 2 < d then f + 1 else if even f then f else f + 1)"

text \<open>\<open>round(x, ndigits)\<close>.\<close>

definition py_round :: "rat \<Rightarrow> nat \<Rightarrow> rat" where
  "py_round x ndigits = of_int (round_half_even (x * 10 ^ ndigits)) / 10 ^ ndigits"

text \<open>
  Binary floating point. \<open>floor_log2 x\<close> is the exponent \<open>e\<close> with \<open>2^e \<le> x < 2^(e+1)\<close> of a
  positive \<open>x\<close>, and \<open>double_of x\<close> the IEEE double nearest to \<open>x\<close>, ties to even: \<open>x\<close> is
  rounded to a multiple of \<open>2^(e-52)\<close>, or of \<open>2^(-1074)\<close> in the subnormal range. This is
  the value of a true division of two \<open>int\<close>s and of a product or quotient of \<open>float\<close>s,
  applied to the exact result. Magnitudes from \<open>2^1024\<close> on, which round to infinity, do
  not occur: a score is at most 100 and a duration is bounded by the range of
  \<open>datetime\<close>.
\<close>

definition floor_log2 :: "rat \<Rightarrow> int" where
  "floor_log2 x = (if 1 \<le> x then bitlen \<lfloor>x\<rfloor> - 1 else - bitlen (\<lceil>1 / x\<rceil> - 1))"

definition double_of :: "rat \<Rightarrow> rat" where
  "double_of x =
     (if x = 0 then 0
      else (let u = max (floor_log2 \<bar>x\<bar> - 52) (- 1074)
            in of_int (round_half_even (x / 2 powi u)) * 2 powi u))"

text \<open>\<open>f"{x:.0f}"\<close>.\<close>

definition format_0f :: "rat \<Rightarrow> string" where
  "format_0f x = (if x < 0 then ''-'' else []) @ digits_of_nat (nat \<bar>round_half_even x\<bar>)"

section \<open>Learner profiles (learner\_profile.py)\<close>

text \<open>
  The pydantic models. Field names repeat between the models, so each record prefixes the
  source's field name with the initials of its class.
\<close>

record QuestionAttempt =
  qa_question_id :: string
  qa_skill_ids :: "string list"
  qa_topic :: string
  qa_difficulty :: string
  qa_question_type :: string
  qa_correct :: bool
  qa_timestamp :: datetime
  qa_time_spent_seconds :: "int option"
  qa_exam_session_id :: "string option"

record SkillPerformance =
  sp_skill_id :: string
  sp_total_attempts :: int
  sp_correct_attempts :: int
  sp_accuracy :: rat
  sp_last_attempted :: datetime
  sp_proficiency_level :: string

record TopicPerformance =
  tp_topic :: string
  tp_total_attempts :: int
  tp_correct_attempts :: int
  tp_accuracy :: rat
  tp_last_attempted :: datetime

record ExamRecord =
  er_exam_id :: string
  er_mode :: string
  er_total_questions :: int
  er_correct_answers :: int
  er_score :: rat
  er_duration_minutes :: rat
  er_completed_at :: datetime
  er_topics_tested :: "string list"
  er_skills_tested :: "string list"

text \<open>
  The two performance dictionaries are association lists in insertion order, which is the
  order Python iterates a \<open>dict\<close> in; \<open>AList.update\<close> overwrites a present key in place and
  appends an absent one.
\<close>

record LearnerProfile =
  lp_learner_id :: string
  lp_name :: string
  lp_role :: string
  lp_attempts :: "QuestionAttempt list"
  lp_skill_performance :: "(string \<times> SkillPerformance) list"
  lp_topic_performance :: "(string \<times> TopicPerformance) list"
  lp_exam_history :: "ExamRecord list"
  lp_created_at :: datetime
  lp_updated_at :: datetime

text \<open>\<open>LearnerProfileManager.profiles\<close>; writing the JSON files is outside the model.\<close>

type_synonym LearnerProfileManager = "string \<rightharpoonup> LearnerProfile"

definition create_profile ::
  "LearnerProfileManager \<Rightarrow> string \<Rightarrow> string \<Rightarrow> string \<Rightarrow> datetime
     \<Rightarrow> LearnerProfileManager \<times> LearnerProfile" where
  "create_profile profiles learner_id name role now =
     (case profiles learner_id of
        Some p \<Rightarrow> (profiles, p)
      | None \<Rightarrow>
          (let profile = \<lparr>lp_learner_id = learner_id, lp_name = name, lp_role = role,
                 lp_attempts = [], lp_skill_performance = [], lp_topic_performance = [],
                 lp_exam_history = [], lp_created_at = now, lp_updated_at = now\<rparr>
           in (profiles(learner_id \<mapsto> profile), profile)))"

definition calculate_proficiency :: "rat \<Rightarrow> int \<Rightarrow> string" where
  "calculate_proficiency accuracy attempts =
     (if attempts < 2 then ''novice''
      else if attempts < 4 then (if accuracy \<ge> 5 / 10 then ''beginner'' else ''novice'')
      else if attempts < 8 then
        (if accuracy \<ge> 8 / 10 then ''advanced''
         else if accuracy \<ge> 6 / 10 then ''intermediate''
         else ''beginner'')
      else
        (if accuracy \<ge> 85 / 100 then ''expert''
         else if accuracy \<ge> 75 / 100 then ''advanced''
         else if accuracy \<ge> 6 / 10 then ''intermediate''
         else ''beginner''))"

text \<open>
  The body of the loop \<open>for skill_id in attempt.skill_ids\<close>, and the loop. The counters are
  incremented before the quotient is taken, so a stored total of \<open>-1\<close> raises
  \<open>ZeroDivisionError\<close> with the counters already changed; the loop stops there.
\<close>

definition new_skill_performance :: "string \<Rightarrow> QuestionAttempt \<Rightarrow> SkillPerformance" where
  "new_skill_performance skill_id attempt =
     \<lparr>sp_skill_id = skill_id, sp_total_attempts = 0, sp_correct_attempts = 0,
      sp_accuracy = 0, sp_last_attempted = qa_timestamp attempt,
      sp_proficiency_level = ''novice''\<rparr>"

definition count_attempt :: "QuestionAttempt \<Rightarrow> SkillPerformance \<Rightarrow> SkillPerformance" where
  "count_attempt attempt perf =
     perf\<lparr>sp_total_attempts := sp_total_attempts perf + 1,
          sp_correct_attempts :=
            (if qa_correct attempt then sp_correct_attempts perf + 1
             else sp_correct_attempts perf)\<rparr>"

definition rate_skill :: "QuestionAttempt \<Rightarrow> SkillPerformance \<Rightarrow> SkillPerformance" where
  "rate_skill attempt perf =
     (let acc = of_int (sp_correct_attempts perf) / of_int (sp_total_attempts perf)
      in perf\<lparr>sp_accuracy := acc, sp_last_attempted := qa_timestamp attempt,
               sp_proficiency_level := calculate_proficiency acc (sp_total_attempts perf)\<rparr>)"

fun update_skills ::
  "QuestionAttempt \<Rightarrow> string list \<Rightarrow> (string \<times> SkillPerformance) list
     \<Rightarrow> (string \<times> SkillPerformance) list \<times> py_error option" where
  "update_skills attempt [] skills = (skills, None)"
| "update_skills attempt (skill_id # rest) skills =
     (let perf = count_attempt attempt
                   (case map_of skills skill_id of
                      None \<Rightarrow> new_skill_performance skill_id attempt
                    | Some p \<Rightarrow> p)
      in if sp_total_attempts perf = 0
         then (AList.update skill_id perf skills, Some ZeroDivisionError)
         else update_skills attempt rest
                (AList.update skill_id (rate_skill attempt perf) skills))"

definition new_topic_performance :: "string \<Rightarrow> QuestionAttempt \<Rightarrow> TopicPerformance" where
  "new_topic_performance t attempt =
     \<lparr>tp_topic = t, tp_total_attempts = 0, tp_correct_attempts = 0,
      tp_accuracy = 0, tp_last_attempted = qa_timestamp attempt\<rparr>"

definition update_topic ::
  "QuestionAttempt \<Rightarrow> (string \<times> TopicPerformance) list
     \<Rightarrow> (string \<times> TopicPerformance) list \<times> py_error option" where
  "update_topic attempt topics =
     (let t = strip (lower (qa_topic attempt))
      in if t = [] then (topics, None)
         else
           (let perf0 = (case map_of topics t of
                           None \<Rightarrow> new_topic_performance t attempt
                         | Some p \<Rightarrow> p);
                perf = perf0\<lparr>tp_total_attempts := tp_total_attempts perf0 + 1,
                         tp_correct_attempts :=
                           (if qa_correct attempt then tp_correct_attempts perf0 + 1
                            else tp_correct_attempts perf0)\<rparr>
            in if tp_total_attempts perf = 0
               then (AList.update t perf topics, Some ZeroDivisionError)
               else (AList.update t
                       (perf\<lparr>tp_accuracy :=
                                of_int (tp_correct_attempts perf) / of_int (tp_total_attempts perf),
                             tp_last_attempted := qa_timestamp attempt\<rparr>) topics, None)))"

text \<open>
  \<open>record_attempt\<close> returns the manager as the call leaves it and the exception it raised,
  if any: the profile object is mutated in place, so what was done before an exception
  stays done.
\<close>

definition record_attempt ::
  "LearnerProfileManager \<Rightarrow> string \<Rightarrow> QuestionAttempt \<Rightarrow> datetime
     \<Rightarrow> LearnerProfileManager \<times> py_error option" where
  "record_attempt profiles learner_id attempt now =
     (case profiles learner_id of
        None \<Rightarrow> (profiles, Some (ProfileNotFound learner_id))
      | Some profile \<Rightarrow>
          (let p1 = profile\<lparr>lp_attempts := lp_attempts profile @ [attempt]\<rparr>;
               (skills, e1) = update_skills attempt (qa_skill_ids attempt) (lp_skill_performance p1);
               p2 = p1\<lparr>lp_skill_performance := skills\<rparr>
           in case e1 of
                Some e \<Rightarrow> (profiles(learner_id \<mapsto> p2), Some e)
              | None \<Rightarrow>
                  (let (topics, e2) = update_topic attempt (lp_topic_performance p2);
                       p3 = p2\<lparr>lp_topic_performance := topics\<rparr>
                   in case e2 of
                        Some e \<Rightarrow> (profiles(learner_id \<mapsto> p3), Some e)
                      | None \<Rightarrow> (profiles(learner_id \<mapsto> p3\<lparr>lp_updated_at := now\<rparr>), None))))"

definition record_exam_completion ::
  "LearnerProfileManager \<Rightarrow> string \<Rightarrow> ExamRecord \<Rightarrow> datetime
     \<Rightarrow> LearnerProfileManager \<times> py_error option" where
  "record_exam_completion profiles learner_id exam_record now =
     (case profiles learner_id of
        None \<Rightarrow> (profiles, Some (ProfileNotFound learner_id))
      | Some profile \<Rightarrow>
          (profiles(learner_id \<mapsto>
             profile\<lparr>lp_exam_history := lp_exam_history profile @ [exam_record],
                     lp_updated_at := now\<rparr>), None))"

subsection \<open>Derived queries\<close>

text \<open>
  \<open>list.sort(key=...)\<close> is stable, as \<open>sort_key\<close> is; with \<open>reverse=True\<close> the list is
  sorted in descending order and elements with equal keys keep their original order.
\<close>

definition sort_key_reverse :: "('a \<Rightarrow> 'k::linorder) \<Rightarrow> 'a list \<Rightarrow> 'a list" where
  "sort_key_reverse f xs = rev (sort_key f (rev xs))"

text \<open>The slices \<open>xs[:n]\<close> and \<open>xs[n:]\<close>.\<close>

definition slice_to :: "int \<Rightarrow> 'a list \<Rightarrow> 'a list" where
  "slice_to n xs = (if 0 \<le> n then take (nat n) xs else take (length xs - nat (- n)) xs)"

definition slice_from :: "int \<Rightarrow> 'a list \<Rightarrow> 'a list" where
  "slice_from n xs = (if 0 \<le> n then drop (nat n) xs else drop (length xs - nat (- n)) xs)"

record skill_summary =
  ss_skill_id :: string
  ss_accuracy :: rat
  ss_attempts :: int
  ss_proficiency :: string

record topic_summary =
  ts_topic :: string
  ts_accuracy :: rat
  ts_attempts :: int
  ts_correct :: int

definition skill_summary_of :: "string \<times> SkillPerformance \<Rightarrow> skill_summary" where
  "skill_summary_of e =
     \<lparr>ss_skill_id = fst e, ss_accuracy = sp_accuracy (snd e),
      ss_attempts = sp_total_attempts (snd e), ss_proficiency = sp_proficiency_level (snd e)\<rparr>"

definition topic_summary_of :: "string \<times> TopicPerformance \<Rightarrow> topic_summary" where
  "topic_summary_of e =
     \<lparr>ts_topic = title (fst e), ts_accuracy = tp_accuracy (snd e),
      ts_attempts = tp_total_attempts (snd e), ts_correct = tp_correct_attempts (snd e)\<rparr>"

definition get_skill_gaps :: "LearnerProfileManager \<Rightarrow> string \<Rightarrow> skill_summary list" where
  "get_skill_gaps profiles learner_id =
     (case profiles learner_id of
        None \<Rightarrow> []
      | Some profile \<Rightarrow>
          sort_key ss_accuracy
            (map skill_summary_of
               (filter (\<lambda>e. sp_accuracy (snd e) < 7 / 10 \<and> sp_total_attempts (snd e) \<ge> 1)
                  (lp_skill_performance profile))))"

definition get_strengths :: "LearnerProfileManager \<Rightarrow> string \<Rightarrow> skill_summary list" where
  "get_strengths profiles learner_id =
     (case profiles learner_id of
        None \<Rightarrow> []
      | Some profile \<Rightarrow>
          sort_key_reverse ss_accuracy
            (map skill_summary_of
               (filter (\<lambda>e. sp_accuracy (snd e) \<ge> 7 / 10 \<and> sp_total_attempts (snd e) \<ge> 1)
                  (lp_skill_performance profile))))"

definition get_topic_strengths :: "LearnerProfileManager \<Rightarrow> string \<Rightarrow> topic_summary list" where
  "get_topic_strengths profiles learner_id =
     (case profiles learner_id of
        None \<Rightarrow> []
      | Some profile \<Rightarrow>
          sort_key_reverse ts_accuracy
            (map topic_summary_of
               (filter (\<lambda>e. tp_accuracy (snd e) \<ge> 7 / 10 \<and> tp_total_attempts (snd e) \<ge> 1)
                  (lp_topic_performance profile))))"

definition get_topic_weaknesses :: "LearnerProfileManager \<Rightarrow> string \<Rightarrow> topic_summary list" where
  "get_topic_weaknesses profiles learner_id =
     (case profiles learner_id of
        None \<Rightarrow> []
      | Some profile \<Rightarrow>
          sort_key ts_accuracy
            (map topic_summary_of
               (filter (\<lambda>e. tp_accuracy (snd e) < 7 / 10 \<and> tp_total_attempts (snd e) \<ge> 1)
                  (lp_topic_performance profile))))"

definition get_exam_history :: "LearnerProfileManager \<Rightarrow> string \<Rightarrow> int \<Rightarrow> ExamRecord list" where
  "get_exam_history profiles learner_id limit =
     (case profiles learner_id of
        None \<Rightarrow> []
      | Some profile \<Rightarrow> slice_to limit (sort_key_reverse er_completed_at (lp_exam_history profile)))"

record performance_data =
  pd_total_questions :: int
  pd_correct_questions :: int
  pd_overall_accuracy :: rat
  pd_skills_practiced :: int
  pd_topics_practiced :: int
  pd_exams_completed :: int
  pd_skill_performance :: "(string \<times> SkillPerformance) list"
  pd_topic_performance :: "(string \<times> TopicPerformance) list"
  pd_topic_strengths :: "topic_summary list"
  pd_topic_weaknesses :: "topic_summary list"
  pd_skill_strengths :: "skill_summary list"
  pd_skill_gaps :: "skill_summary list"
  pd_recent_exams :: "ExamRecord list"

text \<open>\<open>get_all_performance_data\<close>; \<open>None\<close> is the empty dictionary of an unknown learner.\<close>

definition get_all_performance_data ::
  "LearnerProfileManager \<Rightarrow> string \<Rightarrow> performance_data option" where
  "get_all_performance_data profiles learner_id =
     (case profiles learner_id of
        None \<Rightarrow> None
      | Some profile \<Rightarrow>
          (let total_questions = int (length (lp_attempts profile));
               correct_questions = int (length (filter qa_correct (lp_attempts profile)));
               overall_accuracy =
                 (if total_questions > 0
                  then of_int correct_questions / of_int total_questions * 100 else 0)
           in Some \<lparr>pd_total_questions = total_questions,
                 pd_correct_questions = correct_questions,
                 pd_overall_accuracy = py_round overall_accuracy 1,
                 pd_skills_practiced = int (length (lp_skill_performance profile)),
                 pd_topics_practiced = int (length (lp_topic_performance profile)),
                 pd_exams_completed = int (length (lp_exam_history profile)),
                 pd_skill_performance = lp_skill_performance profile,
                 pd_topic_performance = lp_topic_performance profile,
                 pd_topic_strengths = get_topic_strengths profiles learner_id,
                 pd_topic_weaknesses = get_topic_weaknesses profiles learner_id,
                 pd_skill_strengths = get_strengths profiles learner_id,
                 pd_skill_gaps = get_skill_gaps profiles learner_id,
                 pd_recent_exams = get_exam_history profiles learner_id 5\<rparr>))"

section \<open>Exam sessions (exam\_session.py)\<close>

text \<open>The question payload is opaque; only its \<open>rationale\<close> entry is read.\<close>

record ExamQuestion =
  eq_question_id :: string
  eq_topic :: string
  eq_difficulty :: string
  eq_question_type :: string
  eq_skill_ids :: "string list"
  eq_question_data :: "(string \<times> string) list"
  eq_user_answer :: "string option"
  eq_correct_answer :: string
  eq_is_correct :: "bool option"
  eq_time_spent_seconds :: "int option"
  eq_timestamp :: "datetime option"

record ExamSession =
  es_session_id :: string
  es_learner_id :: string
  es_mode :: string
  es_total_questions :: int
  es_time_limit_minutes :: "int option"
  es_questions :: "ExamQuestion list"
  es_current_question_index :: int
  es_start_time :: datetime
  es_end_time :: "datetime option"
  es_score :: "rat option"
  es_status :: string

record ExamSessionManager =
  sessions :: "string \<rightharpoonup> ExamSession"
  learner_manager :: LearnerProfileManager

text \<open>The fallback \<open>q.skill_ids if q.skill_ids else [f"topic_..."]\<close>.\<close>

definition skill_ids_or_topic :: "string list \<Rightarrow> string \<Rightarrow> string list" where
  "skill_ids_or_topic skill_ids topic = (if skill_ids \<noteq> [] then skill_ids else [topic_skill_id topic])"

definition add_question_to_session ::
  "ExamSessionManager \<Rightarrow> string \<Rightarrow> string \<Rightarrow> string \<Rightarrow> string \<Rightarrow> string \<Rightarrow> string list
     \<Rightarrow> (string \<times> string) list \<Rightarrow> string \<Rightarrow> ExamSessionManager \<times> py_error option" where
  "add_question_to_session mgr session_id question_id topic difficulty question_type skill_ids
       question_data correct_answer =
     (case sessions mgr session_id of
        None \<Rightarrow> (mgr, Some (SessionNotFound session_id))
      | Some session \<Rightarrow>
          (let question =
                 \<lparr>eq_question_id = question_id, eq_topic = topic, eq_difficulty = difficulty,
                  eq_question_type = question_type,
                  eq_skill_ids = skill_ids_or_topic skill_ids topic,
                  eq_question_data = question_data, eq_user_answer = None,
                  eq_correct_answer = correct_answer, eq_is_correct = None,
                  eq_time_spent_seconds = None, eq_timestamp = None\<rparr>
           in (mgr\<lparr>sessions := (sessions mgr)(session_id \<mapsto>
                       session\<lparr>es_questions := es_questions session @ [question]\<rparr>)\<rparr>,
               None)))"

record submit_result =
  sr_is_correct :: bool
  sr_correct_answer :: string
  sr_rationale :: string

text \<open>
  \<open>submit_answer\<close>. The guard compares the index with the length only from above; the
  subscription \<open>session.questions[question_index]\<close> then follows Python's rule, counting a
  negative index from the end and raising \<open>IndexError\<close> below \<open>-len\<close>. Whatever
  \<open>record_attempt\<close> raises is caught and printed, and what it did to the profile stays. The
  two clock readings are \<open>now\<close> (the question's timestamp) and \<open>now_profile\<close> (the
  profile's \<open>updated_at\<close>).
\<close>

definition submit_answer ::
  "ExamSessionManager \<Rightarrow> string \<Rightarrow> int \<Rightarrow> string \<Rightarrow> int \<Rightarrow> datetime \<Rightarrow> datetime
     \<Rightarrow> ExamSessionManager \<times> (py_error + submit_result)" where
  "submit_answer mgr session_id question_index user_answer time_spent_seconds now now_profile =
     (case sessions mgr session_id of
        None \<Rightarrow> (mgr, Inl (SessionNotFound session_id))
      | Some session \<Rightarrow>
          (let n = int (length (es_questions session))
           in if question_index \<ge> n then (mgr, Inl (QuestionIndexOutOfRange question_index))
              else if question_index < - n then (mgr, Inl IndexError)
              else
                (let j = nat (if question_index < 0 then n + question_index else question_index);
                     q = es_questions session ! j;
                     question = q\<lparr>eq_user_answer := Some user_answer,
                                  eq_time_spent_seconds := Some time_spent_seconds,
                                  eq_timestamp := Some now,
                                  eq_is_correct := Some (user_answer = eq_correct_answer q)\<rparr>;
                     attempt =
                       \<lparr>qa_question_id = eq_question_id question,
                        qa_skill_ids = skill_ids_or_topic (eq_skill_ids question) (eq_topic question),
                        qa_topic = eq_topic question,
                        qa_difficulty = eq_difficulty question,
                        qa_question_type = eq_question_type question,
                        qa_correct = (user_answer = eq_correct_answer q),
                        qa_timestamp = now,
                        qa_time_spent_seconds = Some time_spent_seconds,
                        qa_exam_session_id = Some session_id\<rparr>;
                     profiles = fst (record_attempt (learner_manager mgr) (es_learner_id session)
                                       attempt now_profile);
                     session' = session\<lparr>es_questions := (es_questions session)[j := question]\<rparr>
                 in (mgr\<lparr>sessions := (sessions mgr)(session_id \<mapsto> session'),
                          learner_manager := profiles\<rparr>,
                     Inr \<lparr>sr_is_correct = (user_answer = eq_correct_answer q),
                          sr_correct_answer = eq_correct_answer q,
                          sr_rationale = (case map_of (eq_question_data question) ''rationale'' of
                                            Some r \<Rightarrow> r | None \<Rightarrow> [])\<rparr>))))"

record completion_result =
  cr_score :: rat
  cr_correct :: int
  cr_total :: int
  cr_duration_minutes :: rat

text \<open>
  \<open>complete_session\<close>. The score is the float \<open>correct / total * 100\<close>: the quotient of the
  two \<open>int\<close>s, rounded, times 100, rounded again. \<open>total_seconds()\<close> is the float nearest
  to the difference of the two instants, and the duration its quotient by 60; the exam
  record holds that duration rounded to two decimals, a float again. \<open>list(set(...))\<close> lists
  each element once, in an order Python leaves open; the model keeps the order of
  \<open>remdups\<close>. A failure of \<open>record_exam_completion\<close> is caught and printed.
\<close>

definition complete_session ::
  "ExamSessionManager \<Rightarrow> string \<Rightarrow> datetime \<Rightarrow> datetime
     \<Rightarrow> ExamSessionManager \<times> (py_error + completion_result)" where
  "complete_session mgr session_id now now_profile =
     (case sessions mgr session_id of
        None \<Rightarrow> (mgr, Inl (SessionNotFound session_id))
      | Some session \<Rightarrow>
          (let total = int (length (es_questions session));
               correct = int (length (filter (\<lambda>q. eq_is_correct q = Some True) (es_questions session)));
               score = (if total > 0
                        then double_of (double_of (of_int correct / of_int total) * 100) else 0);
               session' = session\<lparr>es_end_time := Some now, es_status := ''completed'',
                                  es_score := Some score\<rparr>;
               duration_minutes = double_of (double_of (now - es_start_time session) / 60);
               exam_record =
                 \<lparr>er_exam_id = session_id, er_mode = es_mode session,
                  er_total_questions = total, er_correct_answers = correct, er_score = score,
                  er_duration_minutes = double_of (py_round duration_minutes 2),
                  er_completed_at = now,
                  er_topics_tested = remdups (map eq_topic (es_questions session)),
                  er_skills_tested =
                    remdups (concat (map (\<lambda>q. skill_ids_or_topic (eq_skill_ids q) (eq_topic q))
                                       (es_questions session)))\<rparr>;
               profiles = fst (record_exam_completion (learner_manager mgr) (es_learner_id session)
                                 exam_record now_profile)
           in (mgr\<lparr>sessions := (sessions mgr)(session_id \<mapsto> session'),
                    learner_manager := profiles\<rparr>,
               Inr \<lparr>cr_score = score, cr_correct = correct, cr_total = total,
                    cr_duration_minutes = duration_minutes\<rparr>)))"

definition get_adaptive_next_difficulty :: "ExamSessionManager \<Rightarrow> string \<Rightarrow> string" where
  "get_adaptive_next_difficulty mgr session_id =
     (case sessions mgr session_id of
        None \<Rightarrow> ''intermediate''
      | Some session \<Rightarrow>
          if length (es_questions session) < 3 then ''intermediate''
          else
            (let answered = filter (\<lambda>q. eq_is_correct q \<noteq> None) (es_questions session);
                 recent = slice_from (- 3) answered
             in if recent = [] then ''intermediate''
                else
                  (let correct_count = length (filter (\<lambda>q. eq_is_correct q = Some True) recent);
                       current_diff = eq_difficulty (last recent)
                   in if correct_count \<ge> 2 then
                        (if current_diff = ''beginner'' then ''intermediate''
                         else if current_diff = ''intermediate'' then ''advanced''
                         else ''advanced'')
                      else if correct_count \<le> 1 then
                        (if current_diff = ''advanced'' then ''intermediate''
                         else if current_diff = ''intermediate'' then ''beginner''
                         else ''beginner'')
                      else current_diff)))"

section \<open>Recommendations (recommendation\_engine.py)\<close>

text \<open>
  The engine is constructed from a learner manager and a skills ontology; of the ontology
  it calls \<open>get_skill\<close> only, a dictionary lookup, so the ontology is the dictionary
  \<open>skills\<close> of the object it is given.
\<close>

datatype SkillCategory =
    ASSESSMENT | INTERVENTION | MONITORING | MEDICATION
  | COMMUNICATION | CRITICAL_THINKING | TECHNICAL | SAFETY

fun category_value :: "SkillCategory \<Rightarrow> string" where
  "category_value ASSESSMENT = ''Clinical Assessment''"
| "category_value INTERVENTION = ''Clinical Intervention''"
| "category_value MONITORING = ''Patient Monitoring''"
| "category_value MEDICATION = ''Medication Management''"
| "category_value COMMUNICATION = ''Communication''"
| "category_value CRITICAL_THINKING = ''Critical Thinking''"
| "category_value TECHNICAL = ''Technical Skills''"
| "category_value SAFETY = ''Patient Safety''"

record Skill =
  sk_id :: string
  sk_name :: string
  sk_description :: string
  sk_category :: SkillCategory
  sk_parent_skill :: "string option"
  sk_required_roles :: "string list"
  sk_proficiency_levels :: "string list"
  sk_keywords :: "string list"

type_synonym SkillsOntology = "string \<rightharpoonup> Skill"

record weak_skill =
  ws_skill_id :: string
  ws_skill_name :: string
  ws_category :: string
  ws_accuracy :: rat
  ws_attempts :: int
  ws_improvement_needed :: rat

record weak_topic =
  wt_topic :: string
  wt_accuracy :: rat
  wt_attempts :: int
  wt_correct :: int
  wt_improvement_needed :: rat
  wt_priority :: string

definition weak_skill_of :: "SkillsOntology \<Rightarrow> rat \<Rightarrow> skill_summary \<Rightarrow> weak_skill" where
  "weak_skill_of ontology threshold gap =
     \<lparr>ws_skill_id = ss_skill_id gap,
      ws_skill_name =
        (case ontology (ss_skill_id gap) of
           Some skill \<Rightarrow> sk_name skill
         | None \<Rightarrow> title (replace ''_'' '' '' (replace ''skill_'' [] (ss_skill_id gap)))),
      ws_category =
        (case ontology (ss_skill_id gap) of
           Some skill \<Rightarrow> category_value (sk_category skill)
         | None \<Rightarrow> ''General''),
      ws_accuracy = ss_accuracy gap,
      ws_attempts = ss_attempts gap,
      ws_improvement_needed = threshold - ss_accuracy gap\<rparr>"

definition get_weak_skills ::
  "LearnerProfileManager \<Rightarrow> SkillsOntology \<Rightarrow> string \<Rightarrow> rat \<Rightarrow> weak_skill list" where
  "get_weak_skills profiles ontology learner_id threshold =
     slice_to 5
       (sort_key ws_accuracy
          (map (weak_skill_of ontology threshold)
             (filter (\<lambda>gap. ss_accuracy gap < threshold) (get_skill_gaps profiles learner_id))))"

definition weak_topic_of :: "rat \<Rightarrow> topic_summary \<Rightarrow> weak_topic" where
  "weak_topic_of threshold topic_info =
     \<lparr>wt_topic = ts_topic topic_info,
      wt_accuracy = ts_accuracy topic_info,
      wt_attempts = ts_attempts topic_info,
      wt_correct = ts_correct topic_info,
      wt_improvement_needed = threshold - ts_accuracy topic_info,
      wt_priority = (if ts_accuracy topic_info < 5 / 10 then ''high'' else ''medium'')\<rparr>"

definition get_weak_topics :: "LearnerProfileManager \<Rightarrow> string \<Rightarrow> rat \<Rightarrow> weak_topic list" where
  "get_weak_topics profiles learner_id threshold =
     slice_to 5
       (sort_key wt_accuracy
          (map (weak_topic_of threshold)
             (filter (\<lambda>t. ts_accuracy t < threshold) (get_topic_weaknesses profiles learner_id))))"

text \<open>\<open>sep.join(xs)\<close> and the percentage \<open>f"{accuracy*100:.0f}%"\<close>.\<close>

fun join :: "string \<Rightarrow> string list \<Rightarrow> string" where
  "join sep [] = []"
| "join sep [x] = x"
| "join sep (x # y # ys) = x @ sep @ join sep (y # ys)"

definition percent :: "rat \<Rightarrow> string" where
  "percent accuracy = format_0f (accuracy * 100) @ ''%''"

record topic_allocation =
  ta_num_questions :: int
  ta_current_accuracy :: string

record skill_allocation =
  sa_skill_name :: string
  sa_num_questions :: int
  sa_current_accuracy :: string

text \<open>The plan; \<open>recommended_topics\<close> is absent from the comprehensive review.\<close>

record exam_plan =
  ep_focus :: string
  ep_message :: string
  ep_skill_distribution :: "(string \<times> skill_allocation) list"
  ep_topic_distribution :: "(string \<times> topic_allocation) list"
  ep_recommended_topics :: "string list option"

definition generate_focused_exam ::
  "LearnerProfileManager \<Rightarrow> SkillsOntology \<Rightarrow> string \<Rightarrow> int \<Rightarrow> exam_plan" where
  "generate_focused_exam profiles ontology learner_id num_questions =
     (let weak_skills = get_weak_skills profiles ontology learner_id (7 / 10);
          weak_topics = get_weak_topics profiles learner_id (7 / 10)
      in if weak_skills = [] \<and> weak_topics = [] then
           \<lparr>ep_focus = ''comprehensive_review'',
            ep_message =
              ''Great job! No major gaps identified. This will be a comprehensive review.'',
            ep_skill_distribution = [], ep_topic_distribution = [],
            ep_recommended_topics = None\<rparr>
         else
           (let total_weak = int (length weak_topics) + int (length weak_skills);
                questions_per_area = max 2 (num_questions div max total_weak 1);
                topic_distribution =
                  foldl (\<lambda>d topic_info.
                           AList.update (wt_topic topic_info)
                             \<lparr>ta_num_questions = questions_per_area,
                              ta_current_accuracy = percent (wt_accuracy topic_info)\<rparr> d)
                    [] (slice_to 3 weak_topics);
                skill_distribution =
                  foldl (\<lambda>d skill_info.
                           AList.update (ws_skill_id skill_info)
                             \<lparr>sa_skill_name = ws_skill_name skill_info,
                              sa_num_questions = questions_per_area,
                              sa_current_accuracy = percent (ws_accuracy skill_info)\<rparr> d)
                    [] (slice_to 2 weak_skills);
                focus_areas = map wt_topic (slice_to 3 weak_topics)
                                @ map ws_skill_name (slice_to 2 weak_skills)
            in \<lparr>ep_focus = ''gap_remediation'',
                ep_message = ''This exam focuses on your '' @ str_of_int (int (length focus_areas))
                               @ '' weakest areas: '' @ join '', '' focus_areas,
                ep_skill_distribution = skill_distribution,
                ep_topic_distribution = topic_distribution,
                ep_recommended_topics = Some focus_areas\<rparr>))"

record milestone =
  ms_name :: string
  ms_check :: bool
  ms_progress :: string
  ms_description :: string

record milestone_info =
  mi_current :: string
  mi_next :: string
  mi_progress :: string
  mi_description :: string

text \<open>
  The ladder of \<open>get_next_milestone\<close>. Each \<open>check\<close> closes over the four counters, so its
  value is fixed once they are read.
\<close>

definition milestones :: "int \<Rightarrow> int \<Rightarrow> int \<Rightarrow> rat \<Rightarrow> milestone list" where
  "milestones total_questions topics_practiced exams_completed overall_accuracy =
     [\<lparr>ms_name = ''Beginner'', ms_check = (total_questions \<ge> 5),
       ms_progress = str_of_int (min total_questions 5) @ ''/5 questions'',
       ms_description = ''Answer 5 questions''\<rparr>,
      \<lparr>ms_name = ''Explorer'', ms_check = (topics_practiced \<ge> 3),
       ms_progress = str_of_int (min topics_practiced 3) @ ''/3 topics'',
       ms_description = ''Practice 3 different topics''\<rparr>,
      \<lparr>ms_name = ''Committed'', ms_check = (exams_completed \<ge> 3),
       ms_progress = str_of_int (min exams_completed 3) @ ''/3 exams'',
       ms_description = ''Complete 3 exams''\<rparr>,
      \<lparr>ms_name = ''Proficient'', ms_check = (total_questions \<ge> 25 \<and> overall_accuracy \<ge> 70),
       ms_progress = str_of_int total_questions @ ''/25 questions, ''
                       @ format_0f overall_accuracy @ ''%/70% accuracy'',
       ms_description = ''Answer 25 questions with 70%+ accuracy''\<rparr>,
      \<lparr>ms_name = ''Expert'', ms_check = (total_questions \<ge> 50 \<and> overall_accuracy \<ge> 85),
       ms_progress = str_of_int total_questions @ ''/50 questions, ''
                       @ format_0f overall_accuracy @ ''%/85% accuracy'',
       ms_description = ''Answer 50 questions with 85%+ accuracy''\<rparr>,
      \<lparr>ms_name = ''Master'', ms_check = (total_questions \<ge> 100 \<and> overall_accuracy \<ge> 90),
       ms_progress = str_of_int total_questions @ ''/100 questions, ''
                       @ format_0f overall_accuracy @ ''%/90% accuracy'',
       ms_description = ''Answer 100 questions with 90%+ accuracy''\<rparr>]"

text \<open>
  The loop over the ladder, on the pair \<open>(current_milestone, next_milestone)\<close>; the rest
  of the list stands for the index \<open>i\<close>, its head being \<open>milestones[i + 1]\<close>.
\<close>

fun walk_milestones :: "string \<times> milestone option \<Rightarrow> milestone list \<Rightarrow> string \<times> milestone option" where
  "walk_milestones (current, nxt) [] = (current, nxt)"
| "walk_milestones (current, nxt) (m # rest) =
     (if ms_check m
      then walk_milestones (ms_name m, case rest of [] \<Rightarrow> None | m' # _ \<Rightarrow> Some m') rest
      else (current, Some m))"

definition get_next_milestone :: "LearnerProfileManager \<Rightarrow> string \<Rightarrow> milestone_info" where
  "get_next_milestone profiles learner_id =
     (case profiles learner_id of
        None \<Rightarrow>
          \<lparr>mi_current = ''Novice'', mi_next = ''Beginner'', mi_progress = ''0/3'',
           mi_description = ''Practice 3 different topics''\<rparr>
      | Some profile \<Rightarrow>
          (let perf_data = get_all_performance_data profiles learner_id;
               total_questions = (case perf_data of Some d \<Rightarrow> pd_total_questions d | None \<Rightarrow> 0);
               topics_practiced = (case perf_data of Some d \<Rightarrow> pd_topics_practiced d | None \<Rightarrow> 0);
               exams_completed = (case perf_data of Some d \<Rightarrow> pd_exams_completed d | None \<Rightarrow> 0);
               overall_accuracy = (case perf_data of Some d \<Rightarrow> pd_overall_accuracy d | None \<Rightarrow> 0);
               ladder = milestones total_questions topics_practiced exams_completed overall_accuracy;
               (current_milestone, next_milestone) =
                 walk_milestones (''Novice'', case ladder of [] \<Rightarrow> None | m # _ \<Rightarrow> Some m) ladder
           in case next_milestone of
                Some m \<Rightarrow>
                  \<lparr>mi_current = current_milestone, mi_next = ms_name m,
                   mi_progress = ms_progress m, mi_description = ms_description m\<rparr>
              | None \<Rightarrow>
                  \<lparr>mi_current = current_milestone, mi_next = ''Master'',
                   mi_progress = ''Complete'',
                   mi_description = ''You've mastered all milestones!''\<rparr>))"

section \<open>Reference definitions and sample data\<close>

text \<open>Reading one skill's aggregate out of the store.\<close>

definition skill_perf :: "LearnerProfileManager \<Rightarrow> string \<Rightarrow> string \<Rightarrow> SkillPerformance option" where
  "skill_perf profiles learner_id skill_id =
     Option.bind (profiles learner_id) (\<lambda>p. map_of (lp_skill_performance p) skill_id)"

text \<open>
  The proficiency table as the specification words it, by ranges of the number of
  attempts.
\<close>

definition proficiency_table :: "rat \<Rightarrow> int \<Rightarrow> string" where
  "proficiency_table accuracy attempts =
     (if attempts < 2 then ''novice''
      else if 2 \<le> attempts \<and> attempts \<le> 3 then
        (if accuracy \<ge> 5 / 10 then ''beginner'' else ''novice'')
      else if 4 \<le> attempts \<and> attempts \<le> 7 then
        (if accuracy \<ge> 8 / 10 then ''advanced''
         else if accuracy \<ge> 6 / 10 then ''intermediate''
         else ''beginner'')
      else
        (if accuracy \<ge> 85 / 100 then ''expert''
         else if accuracy \<ge> 75 / 100 then ''advanced''
         else if accuracy \<ge> 6 / 10 then ''intermediate''
         else ''beginner''))"

definition tier_stored :: "SkillPerformance \<Rightarrow> bool" where
  "tier_stored perf \<longleftrightarrow>
     sp_proficiency_level perf = proficiency_table (sp_accuracy perf) (sp_total_attempts perf)"

text \<open>A learner, an empty store holding only that learner, and attempts on a topic.\<close>

definition sample_profile :: LearnerProfile where
  "sample_profile =
     \<lparr>lp_learner_id = ''u1'', lp_name = ''Ada'', lp_role = ''ICU Nurse'',
      lp_attempts = [], lp_skill_performance = [], lp_topic_performance = [],
      lp_exam_history = [], lp_created_at = 0, lp_updated_at = 0\<rparr>"

definition sample_store :: LearnerProfileManager where
  "sample_store = [''u1'' \<mapsto> sample_profile]"

definition sample_attempt :: "string list \<Rightarrow> bool \<Rightarrow> QuestionAttempt" where
  "sample_attempt ids ok =
     \<lparr>qa_question_id = ''q1'', qa_skill_ids = ids, qa_topic = ''Sepsis Care'',
      qa_difficulty = ''intermediate'', qa_question_type = ''mcq'', qa_correct = ok,
      qa_timestamp = 5, qa_time_spent_seconds = Some 30, qa_exam_session_id = None\<rparr>"

subsection \<open>Adaptive difficulty\<close>

text \<open>The three tiers in their order, and one step up or down with saturation.\<close>

datatype tier = Beginner | Intermediate | Advanced

fun tier_name :: "tier \<Rightarrow> string" where
  "tier_name Beginner = ''beginner''"
| "tier_name Intermediate = ''intermediate''"
| "tier_name Advanced = ''advanced''"

fun tier_above :: "tier \<Rightarrow> tier" where
  "tier_above Beginner = Intermediate"
| "tier_above Intermediate = Advanced"
| "tier_above Advanced = Advanced"

fun tier_below :: "tier \<Rightarrow> tier" where
  "tier_below Advanced = Intermediate"
| "tier_below Intermediate = Beginner"
| "tier_below Beginner = Beginner"

text \<open>The answered questions of a session, the last three of a list, the correct ones.\<close>

definition answered_questions :: "ExamSession \<Rightarrow> ExamQuestion list" where
  "answered_questions s = filter (\<lambda>q. eq_is_correct q \<noteq> None) (es_questions s)"

definition last_three :: "'a list \<Rightarrow> 'a list" where
  "last_three xs = drop (length xs - 3) xs"

definition count_correct :: "ExamQuestion list \<Rightarrow> nat" where
  "count_correct qs = length (filter (\<lambda>q. eq_is_correct q = Some True) qs)"

text \<open>
  A question of a given difficulty, unanswered (\<open>None\<close>) or answered rightly or wrongly,
  and a session and a manager holding such questions.
\<close>

definition sample_question :: "string \<Rightarrow> bool option \<Rightarrow> ExamQuestion" where
  "sample_question difficulty outcome =
     \<lparr>eq_question_id = ''q'', eq_topic = ''Sepsis Care'', eq_difficulty = difficulty,
      eq_question_type = ''mcq'', eq_skill_ids = [''skill_sepsis_recognition''],
      eq_question_data = [(''rationale'', ''Lactate first.'')],
      eq_user_answer = map_option (\<lambda>ok. if ok then ''B'' else ''C'') outcome,
      eq_correct_answer = ''B'', eq_is_correct = outcome,
      eq_time_spent_seconds = map_option (\<lambda>_. 30) outcome,
      eq_timestamp = map_option (\<lambda>_. 5) outcome\<rparr>"

definition sample_session :: "ExamQuestion list \<Rightarrow> ExamSession" where
  "sample_session qs =
     \<lparr>es_session_id = ''s1'', es_learner_id = ''u1'', es_mode = ''adaptive'',
      es_total_questions = 10, es_time_limit_minutes = None, es_questions = qs,
      es_current_question_index = 0, es_start_time = 0, es_end_time = None,
      es_score = None, es_status = ''in_progress''\<rparr>"

definition sample_manager :: "ExamQuestion list \<Rightarrow> ExamSessionManager" where
  "sample_manager qs = \<lparr>sessions = [''s1'' \<mapsto> sample_session qs], learner_manager = sample_store\<rparr>"

definition two_right_one_wrong :: "ExamQuestion list" where
  "two_right_one_wrong =
     [sample_question ''intermediate'' (Some True), sample_question ''intermediate'' (Some True),
      sample_question ''intermediate'' (Some False)]"

definition one_right_two_open :: "ExamQuestion list" where
  "one_right_two_open =
     [sample_question ''intermediate'' (Some True), sample_question ''intermediate'' None,
      sample_question ''intermediate'' None]"

definition two_right :: "ExamQuestion list" where
  "two_right = [sample_question ''advanced'' (Some True), sample_question ''advanced'' (Some True)]"

subsection \<open>Submitting and completing\<close>


text \<open>What a submission writes into the question it addresses.\<close>

definition answer_question :: "string \<Rightarrow> int \<Rightarrow> datetime \<Rightarrow> ExamQuestion \<Rightarrow> ExamQuestion" where
  "answer_question user_answer time_spent now q =
     q\<lparr>eq_user_answer := Some user_answer, eq_time_spent_seconds := Some time_spent,
       eq_timestamp := Some now, eq_is_correct := Some (user_answer = eq_correct_answer q)\<rparr>"


text \<open>
  The time a question was answered at, and the three most recently answered questions
  of a session, the latest first.
\<close>

definition answer_time :: "ExamQuestion \<Rightarrow> datetime" where
  "answer_time q = (case eq_timestamp q of Some t \<Rightarrow> t | None \<Rightarrow> 0)"

definition most_recently_answered :: "ExamSession \<Rightarrow> ExamQuestion list" where
  "most_recently_answered s = take 3 (sort_key_reverse answer_time (answered_questions s))"

text \<open>
  A session of four open questions, the first advanced and the others beginner, answered
  from the last to the first at the times 1 to 4: three right answers, then a wrong one
  to the advanced question.
\<close>

definition backwards_questions :: "ExamQuestion list" where
  "backwards_questions =
     [sample_question ''advanced'' None, sample_question ''beginner'' None,
      sample_question ''beginner'' None, sample_question ''beginner'' None]"

definition backwards_manager :: ExamSessionManager where
  "backwards_manager =
     fst (submit_answer
       (fst (submit_answer
         (fst (submit_answer
           (fst (submit_answer (sample_manager backwards_questions) ''s1'' 3 ''B'' 30 1 1))
           ''s1'' 2 ''B'' 30 2 2))
         ''s1'' 1 ''B'' 30 3 3))
       ''s1'' 0 ''C'' 30 4 4)"

definition answered_as :: "string \<Rightarrow> string \<Rightarrow> datetime \<Rightarrow> ExamQuestion" where
  "answered_as difficulty answer now =
     answer_question answer 30 now (sample_question difficulty None)"

subsection \<open>Skill gaps and strengths\<close>

text \<open>
  The tracked skills with at least one attempt, and a list in descending order.
\<close>

definition practised_skills :: "LearnerProfile \<Rightarrow> string set" where
  "practised_skills p =
     fst ` set (filter (\<lambda>e. 1 \<le> sp_total_attempts (snd e)) (lp_skill_performance p))"

definition descending :: "rat list \<Rightarrow> bool" where
  "descending xs = sorted (rev xs)"

text \<open>A profile with four rated skills, of accuracies 0.5, 0.8, 0 and 1.\<close>

definition graded_skill :: "string \<Rightarrow> int \<Rightarrow> int \<Rightarrow> string \<times> SkillPerformance" where
  "graded_skill skill_id attempts correct =
     (skill_id,
      \<lparr>sp_skill_id = skill_id, sp_total_attempts = attempts, sp_correct_attempts = correct,
       sp_accuracy = of_int correct / of_int attempts, sp_last_attempted = 5,
       sp_proficiency_level = calculate_proficiency (of_int correct / of_int attempts) attempts\<rparr>)"

definition graded_profile :: LearnerProfile where
  "graded_profile =
     sample_profile\<lparr>lp_skill_performance :=
       [graded_skill ''skill_a'' 4 2, graded_skill ''skill_b'' 5 4,
        graded_skill ''skill_c'' 3 0, graded_skill ''skill_d'' 2 2]\<rparr>"

subsection \<open>Counting attempts\<close>

text \<open>
  The operations of the store as a trace, run from left to right; an operation that
  raises leaves the store as the exception found it and the next one proceeds.
\<close>

datatype store_op =
    CreateProfile string string string datetime
  | RecordAttempt string QuestionAttempt datetime
  | RecordExamCompletion string ExamRecord datetime

fun apply_op :: "LearnerProfileManager \<Rightarrow> store_op \<Rightarrow> LearnerProfileManager" where
  "apply_op profiles (CreateProfile learner_id name role now) =
     fst (create_profile profiles learner_id name role now)"
| "apply_op profiles (RecordAttempt learner_id attempt now) =
     fst (record_attempt profiles learner_id attempt now)"
| "apply_op profiles (RecordExamCompletion learner_id exam_record now) =
     fst (record_exam_completion profiles learner_id exam_record now)"

definition run_ops :: "LearnerProfileManager \<Rightarrow> store_op list \<Rightarrow> LearnerProfileManager" where
  "run_ops profiles ops = foldl apply_op profiles ops"

text \<open>The attempts a trace records for a learner, and those of them tagged with a skill.\<close>

fun attempts_of :: "string \<Rightarrow> store_op list \<Rightarrow> QuestionAttempt list" where
  "attempts_of learner_id [] = []"
| "attempts_of learner_id (RecordAttempt l attempt now # ops) =
     (if l = learner_id then attempt # attempts_of learner_id ops else attempts_of learner_id ops)"
| "attempts_of learner_id (_ # ops) = attempts_of learner_id ops"

definition attempts_tagging :: "string \<Rightarrow> string \<Rightarrow> store_op list \<Rightarrow> QuestionAttempt list" where
  "attempts_tagging learner_id skill_id ops =
     filter (\<lambda>a. skill_id \<in> set (qa_skill_ids a)) (attempts_of learner_id ops)"

text \<open>How often a list of attempts lists a skill, counting repetitions within an attempt.\<close>

definition occurrences :: "string \<Rightarrow> QuestionAttempt list \<Rightarrow> int" where
  "occurrences skill_id attempts =
     sum_list (map (\<lambda>a. int (count_list (qa_skill_ids a) skill_id)) attempts)"

definition skill_total :: "(string \<times> SkillPerformance) list \<Rightarrow> string \<Rightarrow> int" where
  "skill_total skills k = (case map_of skills k of None \<Rightarrow> 0 | Some perf \<Rightarrow> sp_total_attempts perf)"

definition skill_correct :: "(string \<times> SkillPerformance) list \<Rightarrow> string \<Rightarrow> int" where
  "skill_correct skills k = (case map_of skills k of None \<Rightarrow> 0 | Some perf \<Rightarrow> sp_correct_attempts perf)"

definition sound_performance :: "SkillPerformance \<Rightarrow> bool" where
  "sound_performance perf \<longleftrightarrow>
     1 \<le> sp_total_attempts perf \<and> 0 \<le> sp_correct_attempts perf
     \<and> sp_correct_attempts perf \<le> sp_total_attempts perf
     \<and> sp_accuracy perf = of_int (sp_correct_attempts perf) / of_int (sp_total_attempts perf)
     \<and> tier_stored perf"

definition sound_skills :: "(string \<times> SkillPerformance) list \<Rightarrow> bool" where
  "sound_skills skills \<longleftrightarrow> (\<forall>k perf. map_of skills k = Some perf \<longrightarrow> sound_performance perf)"

definition skill_step :: "QuestionAttempt \<Rightarrow> string \<Rightarrow> (string \<times> SkillPerformance) list \<Rightarrow> SkillPerformance" where
  "skill_step attempt skill_id skills =
     count_attempt attempt
       (case map_of skills skill_id of
          None \<Rightarrow> new_skill_performance skill_id attempt
        | Some p \<Rightarrow> p)"

text \<open>
  Traces on the sample learner: one attempt listing a skill twice; two attempts on a
  skill, the first correct; and the learner's profile as \<open>create_profile\<close> makes it.
\<close>

definition repeated_tag_ops :: "store_op list" where
  "repeated_tag_ops = [RecordAttempt ''u1'' (sample_attempt [''skill_x'', ''skill_x''] True) 9]"

definition two_attempt_ops :: "store_op list" where
  "two_attempt_ops =
     [RecordAttempt ''u1'' (sample_attempt [''skill_x''] True) 9,
      RecordAttempt ''u1'' (sample_attempt [''skill_x'', ''skill_y''] False) 10]"

definition fresh_store :: LearnerProfileManager where
  "fresh_store = fst (create_profile Map.empty ''u1'' ''Ada'' ''ICU Nurse'' 0)"

definition untagged_question :: ExamQuestion where
  "untagged_question = (sample_question ''beginner'' None)\<lparr>eq_skill_ids := []\<rparr>"

subsection \<open>Milestones\<close>

text \<open>
  The ladder as the specification gives it: the six milestones in order, each with its
  gate over the number of questions, of topics, of exams and an accuracy in percent.
\<close>

definition ladder_gates :: "int \<Rightarrow> int \<Rightarrow> int \<Rightarrow> rat \<Rightarrow> (string \<times> bool) list" where
  "ladder_gates questions topics exams accuracy =
     [(''Beginner'', questions \<ge> 5),
      (''Explorer'', topics \<ge> 3),
      (''Committed'', exams \<ge> 3),
      (''Proficient'', questions \<ge> 25 \<and> accuracy \<ge> 70),
      (''Expert'', questions \<ge> 50 \<and> accuracy \<ge> 85),
      (''Master'', questions \<ge> 100 \<and> accuracy \<ge> 90)]"

text \<open>
  The last milestone of the met prefix, the first unmet milestone, and whether all are
  met.
\<close>

definition current_of :: "(string \<times> bool) list \<Rightarrow> string" where
  "current_of gates = (case takeWhile snd gates of [] \<Rightarrow> ''Novice'' | met \<Rightarrow> fst (last met))"

definition next_of :: "(string \<times> bool) list \<Rightarrow> string" where
  "next_of gates = (case dropWhile snd gates of [] \<Rightarrow> ''Master'' | g # _ \<Rightarrow> fst g)"

definition all_met :: "(string \<times> bool) list \<Rightarrow> bool" where
  "all_met gates \<longleftrightarrow> dropWhile snd gates = []"

text \<open>
  A learner's overall accuracy in percent, exactly, and the gates of a profile: as the
  claim states them, on the exact accuracy, and on the accuracy rounded to one decimal.
\<close>

definition exact_accuracy :: "LearnerProfile \<Rightarrow> rat" where
  "exact_accuracy p =
     (if lp_attempts p = [] then 0
      else 100 * of_nat (length (filter qa_correct (lp_attempts p)))
             / of_nat (length (lp_attempts p)))"

definition stated_gates :: "LearnerProfile \<Rightarrow> (string \<times> bool) list" where
  "stated_gates p =
     ladder_gates (int (length (lp_attempts p))) (int (length (lp_topic_performance p)))
       (int (length (lp_exam_history p))) (exact_accuracy p)"

definition rounded_gates :: "LearnerProfile \<Rightarrow> (string \<times> bool) list" where
  "rounded_gates p =
     ladder_gates (int (length (lp_attempts p))) (int (length (lp_topic_performance p)))
       (int (length (lp_exam_history p))) (py_round (exact_accuracy p) 1)"

definition gate_of :: "milestone \<Rightarrow> string \<times> bool" where
  "gate_of m = (ms_name m, ms_check m)"

text \<open>
  A learner with 113 attempts, 96 of them correct (84.96 percent), on three topics, and
  three completed exams.
\<close>

definition keen_exam :: ExamRecord where
  "keen_exam =
     \<lparr>er_exam_id = ''s1'', er_mode = ''practice'', er_total_questions = 10,
      er_correct_answers = 9, er_score = 90, er_duration_minutes = 12, er_completed_at = 700,
      er_topics_tested = [''Sepsis Care''], er_skills_tested = [''skill_x'']\<rparr>"

definition keen_topic :: "string \<Rightarrow> int \<Rightarrow> int \<Rightarrow> string \<times> TopicPerformance" where
  "keen_topic t attempts right =
     (t, \<lparr>tp_topic = t, tp_total_attempts = attempts, tp_correct_attempts = right,
          tp_accuracy = of_int right / of_int attempts, tp_last_attempted = 5\<rparr>)"

definition keen_profile :: LearnerProfile where
  "keen_profile =
     sample_profile\<lparr>
       lp_attempts :=
         replicate 96 (sample_attempt [''skill_x''] True)
           @ replicate 10 ((sample_attempt [''skill_x''] False)\<lparr>qa_topic := ''Shock''\<rparr>)
           @ replicate 7 ((sample_attempt [''skill_x''] False)\<lparr>qa_topic := ''Ards''\<rparr>),
       lp_skill_performance := [graded_skill ''skill_x'' 113 96],
       lp_topic_performance :=
         [keen_topic ''sepsis care'' 96 96, keen_topic ''shock'' 10 0, keen_topic ''ards'' 7 0],
       lp_exam_history := [keen_exam, keen_exam, keen_exam]\<rparr>"

subsection \<open>Focused exams\<close>

text \<open>The weak areas at the default threshold 0.7, as \<open>generate_focused_exam\<close> asks for them.\<close>

definition weak_topics_of :: "LearnerProfileManager \<Rightarrow> string \<Rightarrow> weak_topic list" where
  "weak_topics_of profiles learner_id = get_weak_topics profiles learner_id (7 / 10)"

definition weak_skills_of :: "LearnerProfileManager \<Rightarrow> SkillsOntology \<Rightarrow> string \<Rightarrow> weak_skill list" where
  "weak_skills_of profiles ontology learner_id = get_weak_skills profiles ontology learner_id (7 / 10)"

text \<open>
  The areas a plan lists, the numbers of questions it assigns to them (topics first), and
  an even share of \<open>n\<close> questions among \<open>areas\<close> areas with the minimum of 2.
\<close>

definition listed_areas :: "exam_plan \<Rightarrow> nat" where
  "listed_areas plan = length (ep_topic_distribution plan) + length (ep_skill_distribution plan)"

definition allocations :: "exam_plan \<Rightarrow> int list" where
  "allocations plan =
     map (\<lambda>e. ta_num_questions (snd e)) (ep_topic_distribution plan)
       @ map (\<lambda>e. sa_num_questions (snd e)) (ep_skill_distribution plan)"

definition even_share :: "int \<Rightarrow> nat \<Rightarrow> int" where
  "even_share n areas = max 2 (n div int areas)"

text \<open>
  A learner with one wrong answer on each of four topics, all tagged with one skill.
\<close>

definition struggling_profile :: LearnerProfile where
  "struggling_profile =
     sample_profile\<lparr>
       lp_attempts :=
         [(sample_attempt [''skill_x''] False)\<lparr>qa_topic := ''Sepsis''\<rparr>,
          (sample_attempt [''skill_x''] False)\<lparr>qa_topic := ''Shock''\<rparr>,
          (sample_attempt [''skill_x''] False)\<lparr>qa_topic := ''Ards''\<rparr>,
          (sample_attempt [''skill_x''] False)\<lparr>qa_topic := ''Copd''\<rparr>],
       lp_skill_performance := [graded_skill ''skill_x'' 4 0],
       lp_topic_performance :=
         [keen_topic ''sepsis'' 1 0, keen_topic ''shock'' 1 0, keen_topic ''ards'' 1 0,
          keen_topic ''copd'' 1 0]\<rparr>"

definition struggling_store :: LearnerProfileManager where
  "struggling_store = [''u1'' \<mapsto> struggling_profile]"

subsection \<open>Recorded tiers\<close>

text \<open>Ten attempts on one skill, nine of them correct.\<close>

definition nine_of_ten_ops :: "store_op list" where
  "nine_of_ten_ops =
     replicate 9 (RecordAttempt ''u1'' (sample_attempt [''skill_x''] True) 9)
       @ [RecordAttempt ''u1'' (sample_attempt [''skill_x''] False) 10]"

subsection \<open>Scores\<close>

text \<open>The score an outcome of \<open>complete_session\<close> carries.\<close>

definition score_of :: "py_error + completion_result \<Rightarrow> rat option" where
  "score_of outcome = (case outcome of Inl _ \<Rightarrow> None | Inr r \<Rightarrow> Some (cr_score r))"

text \<open>Twenty answered questions, eleven of them right.\<close>

definition eleven_of_twenty :: "ExamQuestion list" where
  "eleven_of_twenty =
     replicate 11 (sample_question ''beginner'' (Some True))
       @ replicate 9 (sample_question ''beginner'' (Some False))"

section \<open>Proficiency tiers\<close>

lemma calculate_proficiency_table:
  "calculate_proficiency accuracy attempts = proficiency_table accuracy attempts"
  unfolding calculate_proficiency_def proficiency_table_def by simp

lemma rate_skill_tier: "tier_stored (rate_skill attempt perf)"
  by (simp add: tier_stored_def rate_skill_def Let_def calculate_proficiency_table)

lemma update_skills_keeps_tier:
  "update_skills attempt ids skills = (skills', None) \<Longrightarrow>
   map_of skills k = Some perf \<Longrightarrow> tier_stored perf \<Longrightarrow>
   \<exists>perf'. map_of skills' k = Some perf' \<and> tier_stored perf'"
proof (induction ids arbitrary: skills perf)
  case Nil
  then show ?case by simp
next
  case (Cons i ids)
  let ?perf = "rate_skill attempt (count_attempt attempt
      (case map_of skills i of None \<Rightarrow> new_skill_performance i attempt | Some p \<Rightarrow> p))"
  let ?skills1 = "AList.update i ?perf skills"
  from Cons.prems(1) have run: "update_skills attempt ids ?skills1 = (skills', None)"
    by (simp add: Let_def split: if_splits)
  have "\<exists>p. map_of ?skills1 k = Some p \<and> tier_stored p"
    using Cons.prems(2,3) by (simp add: update_conv' rate_skill_tier)
  then obtain p where "map_of ?skills1 k = Some p" "tier_stored p" by blast
  with run show ?case by (rule Cons.IH)
qed

lemma update_skills_stores_tier:
  "update_skills attempt ids skills = (skills', None) \<Longrightarrow> k \<in> set ids \<Longrightarrow>
   \<exists>perf'. map_of skills' k = Some perf' \<and> tier_stored perf'"
proof (induction ids arbitrary: skills)
  case Nil
  then show ?case by simp
next
  case (Cons i ids)
  let ?perf = "rate_skill attempt (count_attempt attempt
      (case map_of skills i of None \<Rightarrow> new_skill_performance i attempt | Some p \<Rightarrow> p))"
  let ?skills1 = "AList.update i ?perf skills"
  from Cons.prems(1) have run: "update_skills attempt ids ?skills1 = (skills', None)"
    by (simp add: Let_def split: if_splits)
  show ?case
  proof (cases "k \<in> set ids")
    case True
    with run show ?thesis by (rule Cons.IH)
  next
    case False
    with Cons.prems(2) have "k = i" by simp
    then have "map_of ?skills1 k = Some ?perf" by (simp add: update_conv')
    with run show ?thesis by (rule update_skills_keeps_tier) (rule rate_skill_tier)
  qed
qed

lemma record_attempt_skills:
  assumes "record_attempt profiles learner_id attempt now = (profiles', None)"
  obtains p p' where "profiles learner_id = Some p" and "profiles' learner_id = Some p'"
    and "update_skills attempt (qa_skill_ids attempt) (lp_skill_performance p)
           = (lp_skill_performance p', None)"
  using assms
  by (auto simp: record_attempt_def Let_def split: option.splits prod.splits)

text \<open>
  One returning call stores, for every skill the attempt lists, the tier of the table at
  the aggregate's own accuracy and total.
\<close>

lemma record_attempt_stores_tier:
  assumes "record_attempt profiles learner_id attempt now = (profiles', None)"
    and "skill_id \<in> set (qa_skill_ids attempt)"
  shows "\<exists>perf. skill_perf profiles' learner_id skill_id = Some perf \<and>
           sp_proficiency_level perf
             = proficiency_table (sp_accuracy perf) (sp_total_attempts perf)"
proof -
  from assms(1) obtain p :: LearnerProfile and p' where
    p': "profiles' learner_id = Some p'" and
    run: "update_skills attempt (qa_skill_ids attempt) (lp_skill_performance p)
            = (lp_skill_performance p', None)"
    by (rule record_attempt_skills)
  from update_skills_stores_tier [OF run assms(2)] obtain perf where
    "map_of (lp_skill_performance p') skill_id = Some perf" "tier_stored perf"
    by blast
  with p' show ?thesis by (auto simp: skill_perf_def tier_stored_def)
qed

section \<open>Adaptive difficulty\<close>

lemma last_last_three: "xs \<noteq> [] \<Longrightarrow> last (last_three xs) = last xs"
  by (simp add: last_three_def last_drop)

lemma last_three_Nil: "last_three xs = [] \<longleftrightarrow> xs = []"
  by (cases xs) (auto simp: last_three_def)

lemma length_answered: "length (answered_questions s) \<le> length (es_questions s)"
  by (simp add: answered_questions_def)

lemma slice_from_last_three: "slice_from (- 3) xs = last_three xs"
  by (simp add: slice_from_def last_three_def)

lemma get_adaptive_next_difficulty_recent:
  assumes "sessions mgr session_id = Some s"
  shows "get_adaptive_next_difficulty mgr session_id =
    (if length (es_questions s) < 3 \<or> last_three (answered_questions s) = [] then ''intermediate''
     else if 2 \<le> count_correct (last_three (answered_questions s)) then
       (if eq_difficulty (last (last_three (answered_questions s))) = ''beginner''
        then ''intermediate'' else ''advanced'')
     else
       (if eq_difficulty (last (last_three (answered_questions s))) = ''advanced''
        then ''intermediate'' else ''beginner''))"
  using assms
  unfolding get_adaptive_next_difficulty_def answered_questions_def count_correct_def
    slice_from_last_three
  by (simp add: Let_def)

lemmas sample_session_defs =
  sample_manager_def sample_session_def sample_question_def answered_questions_def
  count_correct_def last_three_def

lemma submit_answer_session:
  assumes "sessions mgr session_id = Some s" and "0 \<le> i" and "i < int (length (es_questions s))"
  shows "sessions (fst (submit_answer mgr session_id i user_answer time_spent now now_profile))
           session_id
         = Some (s\<lparr>es_questions := (es_questions s)[nat i :=
                     answer_question user_answer time_spent now (es_questions s ! nat i)]\<rparr>)"
  using assms by (simp add: submit_answer_def Let_def answer_question_def)

lemma backwards_session:
  "sessions backwards_manager ''s1'' =
     Some (sample_session
       [answered_as ''advanced'' ''C'' 4, answered_as ''beginner'' ''B'' 3,
        answered_as ''beginner'' ''B'' 2, answered_as ''beginner'' ''B'' 1])"
proof -
  let ?m0 = "sample_manager backwards_questions"
  let ?m1 = "fst (submit_answer ?m0 ''s1'' 3 ''B'' 30 1 1)"
  let ?m2 = "fst (submit_answer ?m1 ''s1'' 2 ''B'' 30 2 2)"
  let ?m3 = "fst (submit_answer ?m2 ''s1'' 1 ''B'' 30 3 3)"
  have s0: "sessions ?m0 ''s1'' = Some (sample_session backwards_questions)"
    by (simp add: sample_manager_def)
  have s1: "sessions ?m1 ''s1'' = Some (sample_session
       [sample_question ''advanced'' None, sample_question ''beginner'' None,
        sample_question ''beginner'' None, answered_as ''beginner'' ''B'' 1])"
    by (subst submit_answer_session [OF s0])
      (simp_all add: sample_session_def backwards_questions_def answered_as_def)
  have s2: "sessions ?m2 ''s1'' = Some (sample_session
       [sample_question ''advanced'' None, sample_question ''beginner'' None,
        answered_as ''beginner'' ''B'' 2, answered_as ''beginner'' ''B'' 1])"
    by (subst submit_answer_session [OF s1])
      (simp_all add: sample_session_def answered_as_def)
  have s3: "sessions ?m3 ''s1'' = Some (sample_session
       [sample_question ''advanced'' None, answered_as ''beginner'' ''B'' 3,
        answered_as ''beginner'' ''B'' 2, answered_as ''beginner'' ''B'' 1])"
    by (subst submit_answer_session [OF s2])
      (simp_all add: sample_session_def answered_as_def)
  show ?thesis
    unfolding backwards_manager_def
    by (subst submit_answer_session [OF s3])
      (simp_all add: sample_session_def answered_as_def)
qed

lemma answered_as_fields:
  "eq_is_correct (answered_as d a t) = Some (a = ''B'')"
  "eq_timestamp (answered_as d a t) = Some t"
  "eq_difficulty (answered_as d a t) = d"
  by (simp_all add: answered_as_def answer_question_def sample_question_def)

text \<open>
  C1, as stated, fails when the answers are not submitted in list order: the three most
  recently answered questions are the advanced one, answered wrongly, and two beginner
  ones, answered rightly, which is two of three right with the most recent at advanced,
  so that the claim gives advanced; the code rates the three answered questions that
  come last in the list, all beginner and right, and returns intermediate.
\<close>

theorem adaptive_difficulty_answer_order:
  "map_option (map eq_difficulty \<circ> most_recently_answered) (sessions backwards_manager ''s1'')
     = Some [''advanced'', ''beginner'', ''beginner'']
   \<and> map_option (map eq_is_correct \<circ> most_recently_answered) (sessions backwards_manager ''s1'')
     = Some [Some False, Some True, Some True]
   \<and> map_option (count_correct \<circ> most_recently_answered) (sessions backwards_manager ''s1'')
     = Some 2
   \<and> tier_name (tier_above Advanced) = ''advanced''
   \<and> get_adaptive_next_difficulty backwards_manager ''s1'' = ''intermediate''"
proof -
  let ?s = "sample_session
       [answered_as ''advanced'' ''C'' 4, answered_as ''beginner'' ''B'' 3,
        answered_as ''beginner'' ''B'' 2, answered_as ''beginner'' ''B'' 1]"
  have answered: "answered_questions ?s = es_questions ?s"
    by (auto simp add: answered_questions_def sample_session_def answered_as_fields)
  have recent: "most_recently_answered ?s =
      [answered_as ''advanced'' ''C'' 4, answered_as ''beginner'' ''B'' 3,
       answered_as ''beginner'' ''B'' 2]"
    unfolding most_recently_answered_def answered
    by (auto simp add: sort_key_reverse_def sample_session_def answer_time_def
        answered_as_fields)
  have next_diff: "get_adaptive_next_difficulty backwards_manager ''s1'' = ''intermediate''"
    unfolding get_adaptive_next_difficulty_recent [OF backwards_session] answered
    by (auto simp add: last_three_def count_correct_def sample_session_def slice_from_def
        answered_as_fields)
  show ?thesis
    by (auto simp add: backwards_session recent next_diff count_correct_def answered_as_fields)
qed

text \<open>
  C1, amended. In a session whose question list holds at least three answered questions,
  the three answered questions that come last in the list decide, whenever they were
  answered: when the last answered question of the list is of tier \<open>t\<close>, the next
  difficulty is the tier above \<open>t\<close> if at least two of the three are correct and the
  tier below \<open>t\<close> if at most one is, both saturating at the ends of
  beginner, intermediate, advanced. These are the three most recently answered questions
  only when the answers are submitted in list order.
\<close>

theorem adaptive_difficulty_three_answered:
  assumes "sessions mgr session_id = Some s"
    and "3 \<le> length (answered_questions s)"
    and "eq_difficulty (last (answered_questions s)) = tier_name t"
  shows "length (last_three (answered_questions s)) = 3
    \<and> (2 \<le> count_correct (last_three (answered_questions s)) \<longrightarrow>
          get_adaptive_next_difficulty mgr session_id = tier_name (tier_above t))
    \<and> (count_correct (last_three (answered_questions s)) \<le> 1 \<longrightarrow>
          get_adaptive_next_difficulty mgr session_id = tier_name (tier_below t))"
proof -
  let ?a = "answered_questions s"
  from assms(2) have ne: "?a \<noteq> []" by auto
  from assms(2) length_answered [of s] have long: "\<not> length (es_questions s) < 3" by simp
  have l3: "length (last_three ?a) = 3" using assms(2) by (simp add: last_three_def)
  have diff: "eq_difficulty (last (last_three ?a)) = tier_name t"
    using ne assms(3) by (simp add: last_last_three)
  have ne3: "last_three ?a \<noteq> []" using ne by (simp add: last_three_Nil)
  show ?thesis
    using l3 long ne3 diff
    by (cases t) (simp_all add: get_adaptive_next_difficulty_recent [OF assms(1)])
qed

theorem adaptive_difficulty_three_answered_witness:
  "sessions (sample_manager two_right_one_wrong) ''s1'' = Some (sample_session two_right_one_wrong)
   \<and> 3 \<le> length (answered_questions (sample_session two_right_one_wrong))
   \<and> eq_difficulty (last (answered_questions (sample_session two_right_one_wrong)))
       = tier_name Intermediate
   \<and> count_correct (last_three (answered_questions (sample_session two_right_one_wrong))) = 2
   \<and> get_adaptive_next_difficulty (sample_manager two_right_one_wrong) ''s1'' = ''advanced''"
proof -
  let ?s = "sample_session two_right_one_wrong"
  have h1: "sessions (sample_manager two_right_one_wrong) ''s1'' = Some ?s"
    by (simp add: sample_manager_def)
  have h2: "3 \<le> length (answered_questions ?s)"
    by (auto simp: sample_session_defs two_right_one_wrong_def)
  have h3: "eq_difficulty (last (answered_questions ?s)) = tier_name Intermediate"
    by (auto simp: sample_session_defs two_right_one_wrong_def)
  have c: "count_correct (last_three (answered_questions ?s)) = 2"
    by (auto simp: sample_session_defs two_right_one_wrong_def)
  from adaptive_difficulty_three_answered [OF h1 h2 h3] c h1 h2 h3 show ?thesis by simp
qed

text \<open>
  C2, as stated, fails: of three questions added, one is answered, and correctly; the
  answer is rated alone, one correct answer is fewer than two, and the next difficulty
  drops from intermediate to beginner.
\<close>

theorem adaptive_difficulty_one_answered:
  "length (es_questions (sample_session one_right_two_open)) = 3
   \<and> length (answered_questions (sample_session one_right_two_open)) = 1
   \<and> get_adaptive_next_difficulty (sample_manager one_right_two_open) ''s1'' = ''beginner''"
  by (auto simp: get_adaptive_next_difficulty_def slice_from_def sample_session_defs
      one_right_two_open_def)

text \<open>
  C2, amended. In a session to which fewer than three questions have been added, or in
  which no question has been answered, the next difficulty is intermediate.
\<close>

theorem adaptive_difficulty_few_questions:
  assumes "sessions mgr session_id = Some s"
    and "length (es_questions s) < 3 \<or> answered_questions s = []"
  shows "get_adaptive_next_difficulty mgr session_id = ''intermediate''"
  using assms(2) by (auto simp: get_adaptive_next_difficulty_recent [OF assms(1)] last_three_Nil)

theorem adaptive_difficulty_few_questions_witness:
  "sessions (sample_manager two_right) ''s1'' = Some (sample_session two_right)
   \<and> (length (es_questions (sample_session two_right)) < 3
        \<or> answered_questions (sample_session two_right) = [])
   \<and> get_adaptive_next_difficulty (sample_manager two_right) ''s1'' = ''intermediate''"
proof -
  have h1: "sessions (sample_manager two_right) ''s1'' = Some (sample_session two_right)"
    by (simp add: sample_manager_def)
  have h2: "length (es_questions (sample_session two_right)) < 3
        \<or> answered_questions (sample_session two_right) = []"
    by (simp add: sample_session_def two_right_def)
  from adaptive_difficulty_few_questions [OF h1 h2] h1 h2 show ?thesis by simp
qed

section \<open>Submitting an answer\<close>





section \<open>Skill gaps and strengths\<close>

lemma set_get_skill_gaps:
  "profiles learner_id = Some p \<Longrightarrow>
   set (get_skill_gaps profiles learner_id) =
     skill_summary_of ` {e \<in> set (lp_skill_performance p).
        sp_accuracy (snd e) < 7 / 10 \<and> 1 \<le> sp_total_attempts (snd e)}"
  by (simp add: get_skill_gaps_def)

lemma set_get_strengths:
  "profiles learner_id = Some p \<Longrightarrow>
   set (get_strengths profiles learner_id) =
     skill_summary_of ` {e \<in> set (lp_skill_performance p).
        7 / 10 \<le> sp_accuracy (snd e) \<and> 1 \<le> sp_total_attempts (snd e)}"
  by (simp add: get_strengths_def sort_key_reverse_def)

lemma sorted_get_skill_gaps: "sorted (map ss_accuracy (get_skill_gaps profiles learner_id))"
  by (simp add: get_skill_gaps_def split: option.split)

lemma descending_get_strengths:
  "descending (map ss_accuracy (get_strengths profiles learner_id))"
  by (simp add: get_strengths_def descending_def sort_key_reverse_def rev_map split: option.split)

lemma skill_summary_of_simps [simp]:
  "ss_skill_id (skill_summary_of e) = fst e"
  "ss_accuracy (skill_summary_of e) = sp_accuracy (snd e)"
  by (simp_all add: skill_summary_of_def)

lemma same_key_same_entry:
  "distinct (map fst xs) \<Longrightarrow> e \<in> set xs \<Longrightarrow> e' \<in> set xs \<Longrightarrow> fst e = fst e' \<Longrightarrow> e = e'"
  by (metis eq_key_imp_eq_value prod.collapse)

lemma ids_get_skill_gaps:
  assumes "profiles learner_id = Some p"
  shows "ss_skill_id ` set (get_skill_gaps profiles learner_id) =
     fst ` {e \<in> set (lp_skill_performance p).
        sp_accuracy (snd e) < 7 / 10 \<and> 1 \<le> sp_total_attempts (snd e)}"
  by (simp only: set_get_skill_gaps [of profiles learner_id p, OF assms] image_image
      skill_summary_of_simps)

lemma ids_get_strengths:
  assumes "profiles learner_id = Some p"
  shows "ss_skill_id ` set (get_strengths profiles learner_id) =
     fst ` {e \<in> set (lp_skill_performance p).
        7 / 10 \<le> sp_accuracy (snd e) \<and> 1 \<le> sp_total_attempts (snd e)}"
  by (simp only: set_get_strengths [of profiles learner_id p, OF assms] image_image
      skill_summary_of_simps)

lemma low_get_skill_gaps:
  assumes "profiles learner_id = Some p" and "g \<in> set (get_skill_gaps profiles learner_id)"
  shows "ss_accuracy g < 7 / 10"
proof -
  from assms(2) obtain e where "g = skill_summary_of e" "sp_accuracy (snd e) < 7 / 10"
    unfolding set_get_skill_gaps [of profiles learner_id p, OF assms(1)] by blast
  then show ?thesis by (simp only: skill_summary_of_simps)
qed

lemma high_get_strengths:
  assumes "profiles learner_id = Some p" and "g \<in> set (get_strengths profiles learner_id)"
  shows "7 / 10 \<le> ss_accuracy g"
proof -
  from assms(2) obtain e where "g = skill_summary_of e" "7 / 10 \<le> sp_accuracy (snd e)"
    unfolding set_get_strengths [of profiles learner_id p, OF assms(1)] by blast
  then show ?thesis by (simp only: skill_summary_of_simps)
qed

lemma gaps_strengths_disjoint:
  assumes "profiles learner_id = Some p"
    and "distinct (map fst (lp_skill_performance p))"
  shows "ss_skill_id ` set (get_skill_gaps profiles learner_id)
        \<inter> ss_skill_id ` set (get_strengths profiles learner_id) = {}"
proof (rule ccontr)
  assume "\<not> ?thesis"
  then obtain k where "k \<in> ss_skill_id ` set (get_skill_gaps profiles learner_id)"
    and "k \<in> ss_skill_id ` set (get_strengths profiles learner_id)" by blast
  then have kg: "k \<in> fst ` {e \<in> set (lp_skill_performance p).
        sp_accuracy (snd e) < 7 / 10 \<and> 1 \<le> sp_total_attempts (snd e)}"
    and ks: "k \<in> fst ` {e \<in> set (lp_skill_performance p).
        7 / 10 \<le> sp_accuracy (snd e) \<and> 1 \<le> sp_total_attempts (snd e)}"
    by (simp_all only: ids_get_skill_gaps [of profiles learner_id p, OF assms(1)]
        ids_get_strengths [of profiles learner_id p, OF assms(1)])
  from kg obtain e where e: "e \<in> set (lp_skill_performance p)" "sp_accuracy (snd e) < 7 / 10"
    and ke: "fst e = k"
    by (elim imageE) (simp only: mem_Collect_eq, elim conjE, simp)
  from ks obtain e' where e': "e' \<in> set (lp_skill_performance p)" "7 / 10 \<le> sp_accuracy (snd e')"
    and ke': "fst e' = k"
    by (elim imageE) (simp only: mem_Collect_eq, elim conjE, simp)
  note k = ke ke'
  from k have "fst e = fst e'" by simp
  from same_key_same_entry [OF assms(2) e(1) e'(1) this] have "e = e'" .
  with e(2) e'(2) show False by simp
qed

lemma gaps_strengths_cover:
  assumes "profiles learner_id = Some p"
  shows "ss_skill_id ` set (get_skill_gaps profiles learner_id)
        \<union> ss_skill_id ` set (get_strengths profiles learner_id) = practised_skills p"
proof -
  have parts: "{e \<in> set (lp_skill_performance p).
        sp_accuracy (snd e) < 7 / 10 \<and> 1 \<le> sp_total_attempts (snd e)}
      \<union> {e \<in> set (lp_skill_performance p).
        7 / 10 \<le> sp_accuracy (snd e) \<and> 1 \<le> sp_total_attempts (snd e)}
      = set (filter (\<lambda>e. 1 \<le> sp_total_attempts (snd e)) (lp_skill_performance p))"
  proof (rule set_eqI)
    fix e :: "string \<times> SkillPerformance"
    from le_less_linear [of "7 / 10" "sp_accuracy (snd e)"]
    show "e \<in> {e \<in> set (lp_skill_performance p).
        sp_accuracy (snd e) < 7 / 10 \<and> 1 \<le> sp_total_attempts (snd e)}
      \<union> {e \<in> set (lp_skill_performance p).
        7 / 10 \<le> sp_accuracy (snd e) \<and> 1 \<le> sp_total_attempts (snd e)}
      \<longleftrightarrow> e \<in> set (filter (\<lambda>e. 1 \<le> sp_total_attempts (snd e)) (lp_skill_performance p))"
      unfolding set_filter Un_iff mem_Collect_eq by blast
  qed
  show ?thesis
    unfolding ids_get_skill_gaps [of profiles learner_id p, OF assms]
      ids_get_strengths [of profiles learner_id p, OF assms] practised_skills_def
      image_Un [symmetric] parts ..
qed

text \<open>
  C8. In a profile (a dictionary holds each skill id once), every entry of
  \<open>get_skill_gaps\<close> has accuracy below 0.7 and every entry of \<open>get_strengths\<close> has accuracy
  at least 0.7; no skill id is in both; together the two lists hold exactly the tracked
  skills with at least one attempt; the gaps are in ascending and the strengths in
  descending order of accuracy.
\<close>

theorem skill_gaps_and_strengths_partition:
  assumes "profiles learner_id = Some p"
    and "distinct (map fst (lp_skill_performance p))"
  shows "(\<forall>g \<in> set (get_skill_gaps profiles learner_id). ss_accuracy g < 7 / 10)
    \<and> (\<forall>g \<in> set (get_strengths profiles learner_id). 7 / 10 \<le> ss_accuracy g)
    \<and> ss_skill_id ` set (get_skill_gaps profiles learner_id)
        \<inter> ss_skill_id ` set (get_strengths profiles learner_id) = {}
    \<and> ss_skill_id ` set (get_skill_gaps profiles learner_id)
        \<union> ss_skill_id ` set (get_strengths profiles learner_id) = practised_skills p
    \<and> sorted (map ss_accuracy (get_skill_gaps profiles learner_id))
    \<and> descending (map ss_accuracy (get_strengths profiles learner_id))"
proof (intro conjI ballI)
  fix g assume "g \<in> set (get_skill_gaps profiles learner_id)"
  with assms(1) show "ss_accuracy g < 7 / 10" by (rule low_get_skill_gaps)
next
  fix g assume "g \<in> set (get_strengths profiles learner_id)"
  with assms(1) show "7 / 10 \<le> ss_accuracy g" by (rule high_get_strengths)
next
  from assms show "ss_skill_id ` set (get_skill_gaps profiles learner_id)
        \<inter> ss_skill_id ` set (get_strengths profiles learner_id) = {}"
    by (rule gaps_strengths_disjoint)
next
  from assms(1) show "ss_skill_id ` set (get_skill_gaps profiles learner_id)
        \<union> ss_skill_id ` set (get_strengths profiles learner_id) = practised_skills p"
    by (rule gaps_strengths_cover)
next
  show "sorted (map ss_accuracy (get_skill_gaps profiles learner_id))"
    by (rule sorted_get_skill_gaps)
next
  show "descending (map ss_accuracy (get_strengths profiles learner_id))"
    by (rule descending_get_strengths)
qed

theorem skill_gaps_and_strengths_partition_witness:
  "[''u1'' \<mapsto> graded_profile] ''u1'' = Some graded_profile
   \<and> distinct (map fst (lp_skill_performance graded_profile))
   \<and> (ss_skill_id ` set (get_skill_gaps [''u1'' \<mapsto> graded_profile] ''u1'')
        \<inter> ss_skill_id ` set (get_strengths [''u1'' \<mapsto> graded_profile] ''u1'') = {}
    \<and> ss_skill_id ` set (get_skill_gaps [''u1'' \<mapsto> graded_profile] ''u1'')
        \<union> ss_skill_id ` set (get_strengths [''u1'' \<mapsto> graded_profile] ''u1'')
        = practised_skills graded_profile
    \<and> sorted (map ss_accuracy (get_skill_gaps [''u1'' \<mapsto> graded_profile] ''u1''))
    \<and> descending (map ss_accuracy (get_strengths [''u1'' \<mapsto> graded_profile] ''u1'')))
   \<and> map ss_skill_id (get_skill_gaps [''u1'' \<mapsto> graded_profile] ''u1'')
        = [''skill_c'', ''skill_a'']
   \<and> map ss_skill_id (get_strengths [''u1'' \<mapsto> graded_profile] ''u1'')
        = [''skill_d'', ''skill_b'']"
proof -
  have h1: "[''u1'' \<mapsto> graded_profile] ''u1'' = Some graded_profile" by simp
  have h2: "distinct (map fst (lp_skill_performance graded_profile))"
    by (simp add: graded_profile_def graded_skill_def)
  have gaps: "map ss_skill_id (get_skill_gaps [''u1'' \<mapsto> graded_profile] ''u1'')
        = [''skill_c'', ''skill_a'']"
    by (simp add: get_skill_gaps_def graded_profile_def graded_skill_def skill_summary_of_def)
  have strengths: "map ss_skill_id (get_strengths [''u1'' \<mapsto> graded_profile] ''u1'')
        = [''skill_d'', ''skill_b'']"
    by (simp add: get_strengths_def graded_profile_def graded_skill_def skill_summary_of_def
        sort_key_reverse_def)
  note c = skill_gaps_and_strengths_partition
    [of "[''u1'' \<mapsto> graded_profile]" "''u1''" graded_profile, OF h1 h2]
  show ?thesis
    by (rule conjI [OF h1 conjI [OF h2 conjI [OF c [THEN conjunct2, THEN conjunct2]
          conjI [OF gaps strengths]]]])
qed

section \<open>Counting attempts\<close>

lemma skill_step_counts:
  "sp_total_attempts (skill_step a i skills) = skill_total skills i + 1"
  "sp_correct_attempts (skill_step a i skills)
     = skill_correct skills i + (if qa_correct a then 1 else 0)"
  by (simp_all add: skill_step_def count_attempt_def skill_total_def skill_correct_def
      new_skill_performance_def split: option.split)

lemma sound_totals:
  assumes "sound_skills skills"
  shows "0 \<le> skill_total skills k" and "0 \<le> skill_correct skills k"
    and "skill_correct skills k \<le> skill_total skills k"
proof -
  have "0 \<le> skill_total skills k \<and> 0 \<le> skill_correct skills k
      \<and> skill_correct skills k \<le> skill_total skills k"
  proof (cases "map_of skills k")
    case None
    then show ?thesis by (simp add: skill_total_def skill_correct_def)
  next
    case (Some perf)
    with assms have "sound_performance perf" by (simp add: sound_skills_def)
    with Some show ?thesis
      by (simp add: skill_total_def skill_correct_def sound_performance_def)
  qed
  then show "0 \<le> skill_total skills k" and "0 \<le> skill_correct skills k"
    and "skill_correct skills k \<le> skill_total skills k" by simp_all
qed

lemma rate_skill_fields:
  "sp_total_attempts (rate_skill a perf) = sp_total_attempts perf"
  "sp_correct_attempts (rate_skill a perf) = sp_correct_attempts perf"
  "sp_accuracy (rate_skill a perf) = of_int (sp_correct_attempts perf) / of_int (sp_total_attempts perf)"
  by (simp_all add: rate_skill_def Let_def)

lemma sound_rated_step:
  assumes "sound_skills skills"
  shows "sound_performance (rate_skill a (skill_step a i skills))"
  using sound_totals [OF assms, of i]
  by (simp add: sound_performance_def rate_skill_fields skill_step_counts rate_skill_tier)

lemma sound_update:
  assumes "sound_skills skills"
  shows "sound_skills (AList.update i (rate_skill a (skill_step a i skills)) skills)"
  using assms sound_rated_step [OF assms, of a i]
  by (simp add: sound_skills_def update_conv')

lemma totals_update:
  "skill_total (AList.update i (rate_skill a (skill_step a i skills)) skills) k
     = skill_total skills k + (if k = i then 1 else 0)"
  "skill_correct (AList.update i (rate_skill a (skill_step a i skills)) skills) k
     = skill_correct skills k + (if k = i \<and> qa_correct a then 1 else 0)"
  by (simp_all add: skill_total_def skill_correct_def update_conv' rate_skill_fields
      skill_step_counts [unfolded skill_total_def skill_correct_def])

lemma update_skills_Cons:
  "update_skills a (i # ids) skills =
     (if sp_total_attempts (skill_step a i skills) = 0
      then (AList.update i (skill_step a i skills) skills, Some ZeroDivisionError)
      else update_skills a ids (AList.update i (rate_skill a (skill_step a i skills)) skills))"
  by (simp add: skill_step_def Let_def)

lemma update_skills_sound:
  assumes "sound_skills skills"
  shows "\<exists>skills'. update_skills a ids skills = (skills', None) \<and> sound_skills skills'
    \<and> (\<forall>k. skill_total skills' k = skill_total skills k + int (count_list ids k))
    \<and> (\<forall>k. skill_correct skills' k
            = skill_correct skills k + (if qa_correct a then int (count_list ids k) else 0))"
  using assms
proof (induction ids arbitrary: skills)
  case Nil
  then show ?case by simp
next
  case (Cons i ids)
  let ?skills1 = "AList.update i (rate_skill a (skill_step a i skills)) skills"
  from sound_totals(1) [OF Cons.prems, of i]
  have nz: "sp_total_attempts (skill_step a i skills) \<noteq> 0"
    by (simp add: skill_step_counts)
  from Cons.prems have "sound_skills ?skills1" by (rule sound_update)
  from Cons.IH [OF this] obtain skills' where
    run: "update_skills a ids ?skills1 = (skills', None)" and sound: "sound_skills skills'"
    and tot: "\<And>k. skill_total skills' k = skill_total ?skills1 k + int (count_list ids k)"
    and cor: "\<And>k. skill_correct skills' k
            = skill_correct ?skills1 k + (if qa_correct a then int (count_list ids k) else 0)"
    by blast
  have "update_skills a (i # ids) skills = (skills', None)"
    using nz run by (simp only: update_skills_Cons if_False)
  moreover have "\<forall>k. skill_total skills' k = skill_total skills k + int (count_list (i # ids) k)"
    by (simp add: tot totals_update)
  moreover have "\<forall>k. skill_correct skills' k
            = skill_correct skills k + (if qa_correct a then int (count_list (i # ids) k) else 0)"
    by (simp add: cor totals_update)
  ultimately show ?case using sound by blast
qed

lemma record_attempt_counts:
  assumes "profiles l = Some p" and "sound_skills (lp_skill_performance p)"
  shows "\<exists>p'. fst (record_attempt profiles l a t) l = Some p'
    \<and> sound_skills (lp_skill_performance p')
    \<and> (\<forall>k. skill_total (lp_skill_performance p') k
            = skill_total (lp_skill_performance p) k + int (count_list (qa_skill_ids a) k))
    \<and> (\<forall>k. skill_correct (lp_skill_performance p') k
            = skill_correct (lp_skill_performance p) k
              + (if qa_correct a then int (count_list (qa_skill_ids a) k) else 0))"
proof -
  from update_skills_sound [OF assms(2), of a "qa_skill_ids a"] obtain skills' where
    run: "update_skills a (qa_skill_ids a) (lp_skill_performance p) = (skills', None)"
    and rest: "sound_skills skills'"
      "\<forall>k. skill_total skills' k
            = skill_total (lp_skill_performance p) k + int (count_list (qa_skill_ids a) k)"
      "\<forall>k. skill_correct skills' k
            = skill_correct (lp_skill_performance p) k
              + (if qa_correct a then int (count_list (qa_skill_ids a) k) else 0)"
    by blast
  have "\<exists>p'. fst (record_attempt profiles l a t) l = Some p' \<and> lp_skill_performance p' = skills'"
    using assms(1) run
    by (simp add: record_attempt_def Let_def split: prod.split option.split)
  with rest show ?thesis by auto
qed

lemma record_attempt_other:
  "l' \<noteq> l \<Longrightarrow> fst (record_attempt profiles l' a t) l = profiles l"
  by (simp add: record_attempt_def Let_def split: prod.split option.split)

lemma create_profile_keeps:
  "profiles l = Some p \<Longrightarrow> fst (create_profile profiles l' name role t) l = Some p"
  by (auto simp: create_profile_def Let_def split: option.split)

lemma record_exam_completion_skills:
  "profiles l = Some p \<Longrightarrow>
   \<exists>p'. fst (record_exam_completion profiles l' r t) l = Some p'
     \<and> lp_skill_performance p' = lp_skill_performance p"
  by (auto simp: record_exam_completion_def split: option.split)

lemma occurrences_simps [simp]:
  "occurrences k [] = 0"
  "occurrences k (a # as) = int (count_list (qa_skill_ids a) k) + occurrences k as"
  by (simp_all add: occurrences_def)

lemma apply_op_counts:
  assumes "profiles l = Some p" and "sound_skills (lp_skill_performance p)"
  shows "\<exists>p'. apply_op profiles op l = Some p'
    \<and> sound_skills (lp_skill_performance p')
    \<and> (\<forall>k. skill_total (lp_skill_performance p') k
            = skill_total (lp_skill_performance p) k + occurrences k (attempts_of l [op]))
    \<and> (\<forall>k. skill_correct (lp_skill_performance p') k
            = skill_correct (lp_skill_performance p) k
              + occurrences k (filter qa_correct (attempts_of l [op])))"
proof (cases op)
  case (CreateProfile l' name role t)
  with assms create_profile_keeps [of profiles l p l' name role t, OF assms(1)] show ?thesis by simp
next
  case (RecordAttempt l' a t)
  show ?thesis
  proof (cases "l' = l")
    case True
    with RecordAttempt record_attempt_counts [of profiles l p a t, OF assms] show ?thesis by auto
  next
    case False
    with RecordAttempt assms record_attempt_other [of l' l profiles a t] show ?thesis by simp
  qed
next
  case (RecordExamCompletion l' r t)
  with assms record_exam_completion_skills [of profiles l p l' r t, OF assms(1)] show ?thesis by auto
qed

lemma attempts_of_Cons: "attempts_of l (op # ops) = attempts_of l [op] @ attempts_of l ops"
  by (cases op) simp_all

lemma occurrences_append [simp]:
  "occurrences k (as @ bs) = occurrences k as + occurrences k bs"
  by (simp add: occurrences_def)

lemma run_ops_counts:
  assumes "profiles l = Some p" and "sound_skills (lp_skill_performance p)"
  shows "\<exists>p'. run_ops profiles ops l = Some p'
    \<and> sound_skills (lp_skill_performance p')
    \<and> (\<forall>k. skill_total (lp_skill_performance p') k
            = skill_total (lp_skill_performance p) k + occurrences k (attempts_of l ops))
    \<and> (\<forall>k. skill_correct (lp_skill_performance p') k
            = skill_correct (lp_skill_performance p) k
              + occurrences k (filter qa_correct (attempts_of l ops)))"
  using assms
proof (induction ops arbitrary: profiles p)
  case Nil
  then show ?case by (simp add: run_ops_def)
next
  case (Cons op ops)
  from apply_op_counts [of profiles l p op, OF Cons.prems] obtain p1 where
    p1: "apply_op profiles op l = Some p1" "sound_skills (lp_skill_performance p1)"
    and t1: "\<And>k. skill_total (lp_skill_performance p1) k
            = skill_total (lp_skill_performance p) k + occurrences k (attempts_of l [op])"
    and c1: "\<And>k. skill_correct (lp_skill_performance p1) k
            = skill_correct (lp_skill_performance p) k
              + occurrences k (filter qa_correct (attempts_of l [op]))"
    by blast
  from Cons.IH [of "apply_op profiles op" p1, OF p1] obtain p' where
    p': "run_ops (apply_op profiles op) ops l = Some p'" "sound_skills (lp_skill_performance p')"
    and t2: "\<And>k. skill_total (lp_skill_performance p') k
            = skill_total (lp_skill_performance p1) k + occurrences k (attempts_of l ops)"
    and c2: "\<And>k. skill_correct (lp_skill_performance p') k
            = skill_correct (lp_skill_performance p1) k
              + occurrences k (filter qa_correct (attempts_of l ops))"
    by blast
  have "run_ops profiles (op # ops) l = Some p'"
    using p'(1) by (simp add: run_ops_def)
  moreover have "\<forall>k. skill_total (lp_skill_performance p') k
            = skill_total (lp_skill_performance p) k + occurrences k (attempts_of l (op # ops))"
    by (simp add: t1 t2 attempts_of_Cons [of l op ops])
  moreover have "\<forall>k. skill_correct (lp_skill_performance p') k
            = skill_correct (lp_skill_performance p) k
              + occurrences k (filter qa_correct (attempts_of l (op # ops)))"
    by (simp add: c1 c2 attempts_of_Cons [of l op ops])
  ultimately show ?case using p'(2) by blast
qed

lemma occurrences_once:
  assumes "\<forall>a \<in> set as. count_list (qa_skill_ids a) k \<le> 1"
  shows "occurrences k as = int (length (filter (\<lambda>a. k \<in> set (qa_skill_ids a)) as))"
  using assms
proof (induction as)
  case Nil
  then show ?case by simp
next
  case (Cons a as)
  from Cons.prems have "count_list (qa_skill_ids a) k \<le> 1" by simp
  then have "count_list (qa_skill_ids a) k = (if k \<in> set (qa_skill_ids a) then 1 else 0)"
    using count_list_0_iff [of "qa_skill_ids a" k] by (auto simp: le_Suc_eq)
  with Cons show ?case by simp
qed

lemma length_filter_correct_tagging:
  "length (filter (\<lambda>a. k \<in> set (qa_skill_ids a)) (filter qa_correct as))
     = length (filter qa_correct (filter (\<lambda>a. k \<in> set (qa_skill_ids a)) as))"
  by (simp add: conj_commute)

lemma sound_performance_accuracy:
  assumes "sound_performance perf"
  shows "0 \<le> sp_accuracy perf" and "sp_accuracy perf \<le> 1"
  using assms by (simp_all add: sound_performance_def)

text \<open>
  C4, as stated, fails when one attempt lists a skill id twice (\<open>skill_ids\<close> is a list):
  after the one \<open>record_attempt\<close> call tagging the skill its total is 2.
\<close>

theorem record_attempt_repeated_tag:
  "length (attempts_tagging ''u1'' ''skill_x'' repeated_tag_ops) = 1
   \<and> map_option sp_total_attempts
         (skill_perf (run_ops fresh_store repeated_tag_ops) ''u1'' ''skill_x'') = Some 2"
  by (simp add: attempts_tagging_def repeated_tag_ops_def run_ops_def fresh_store_def
      create_profile_def record_attempt_def sample_attempt_def Let_def count_attempt_def
      new_skill_performance_def rate_skill_def update_topic_def strip_def lower_def
      is_space_def char_lower_def ascii_uppercase_def ascii_lowercase_def
      new_topic_performance_def skill_perf_def)

text \<open>
  C4, amended. From a profile just created, after any operations of the store among which
  \<open>N > 0\<close> \<open>record_attempt\<close> calls for the learner are tagged with a skill, none of the
  learner's attempts listing that skill more than once, the skill's aggregate has
  \<open>total_attempts = N\<close>, \<open>correct_attempts\<close> the number of those attempts that were correct,
  and \<open>accuracy = correct_attempts / total_attempts\<close> exactly, between 0 and 1.
\<close>

theorem record_attempt_counters:
  assumes "profiles l = None"
    and "\<forall>a \<in> set (attempts_of l ops). count_list (qa_skill_ids a) k \<le> 1"
    and "attempts_tagging l k ops \<noteq> []"
  shows "\<exists>perf.
      skill_perf (run_ops (fst (create_profile profiles l name role t0)) ops) l k = Some perf
      \<and> sp_total_attempts perf = int (length (attempts_tagging l k ops))
      \<and> sp_correct_attempts perf = int (length (filter qa_correct (attempts_tagging l k ops)))
      \<and> sp_accuracy perf = of_int (sp_correct_attempts perf) / of_int (sp_total_attempts perf)
      \<and> 0 \<le> sp_accuracy perf \<and> sp_accuracy perf \<le> 1"
proof -
  let ?start = "fst (create_profile profiles l name role t0)"
  obtain p0 where p0: "?start l = Some p0" "lp_skill_performance p0 = []"
    using assms(1) by (simp add: create_profile_def Let_def)
  have sound0: "sound_skills (lp_skill_performance p0)"
    by (simp add: p0(2) sound_skills_def)
  from run_ops_counts [of ?start l p0 ops, OF p0(1) sound0] obtain p' where
    p': "run_ops ?start ops l = Some p'" and sound: "sound_skills (lp_skill_performance p')"
    and tot: "skill_total (lp_skill_performance p') k
            = skill_total (lp_skill_performance p0) k + occurrences k (attempts_of l ops)"
    and cor: "skill_correct (lp_skill_performance p') k
            = skill_correct (lp_skill_performance p0) k
              + occurrences k (filter qa_correct (attempts_of l ops))"
    by blast
  have once: "\<forall>a \<in> set (filter qa_correct (attempts_of l ops)).
      count_list (qa_skill_ids a) k \<le> 1"
    using assms(2) by simp
  have zero: "skill_total (lp_skill_performance p0) k = 0"
    "skill_correct (lp_skill_performance p0) k = 0"
    by (simp_all add: p0(2) skill_total_def skill_correct_def)
  have tot': "skill_total (lp_skill_performance p') k = int (length (attempts_tagging l k ops))"
    by (simp add: tot zero occurrences_once [OF assms(2)] attempts_tagging_def)
  have cor': "skill_correct (lp_skill_performance p') k
      = int (length (filter qa_correct (attempts_tagging l k ops)))"
    by (simp add: cor zero occurrences_once [OF once] length_filter_correct_tagging
        attempts_tagging_def del: filter_filter)
  from assms(3) have "0 < length (attempts_tagging l k ops)" by simp
  with tot' have "skill_total (lp_skill_performance p') k \<noteq> 0" by simp
  then obtain perf where perf: "map_of (lp_skill_performance p') k = Some perf"
    by (auto simp: skill_total_def split: option.splits)
  with sound have sp: "sound_performance perf" by (simp add: sound_skills_def)
  have "skill_perf (run_ops ?start ops) l k = Some perf"
    by (simp add: skill_perf_def p' perf)
  moreover have "sp_total_attempts perf = int (length (attempts_tagging l k ops))"
    using tot' perf by (simp add: skill_total_def)
  moreover have "sp_correct_attempts perf
      = int (length (filter qa_correct (attempts_tagging l k ops)))"
    using cor' perf by (simp add: skill_correct_def)
  moreover have "sp_accuracy perf = of_int (sp_correct_attempts perf) / of_int (sp_total_attempts perf)"
    using sp by (simp add: sound_performance_def)
  ultimately show ?thesis using sound_performance_accuracy [OF sp] by blast
qed

theorem record_attempt_counters_witness:
  "Map.empty ''u1'' = (None :: LearnerProfile option)
   \<and> attempts_tagging ''u1'' ''skill_x'' two_attempt_ops \<noteq> []
   \<and> (\<exists>perf.
      skill_perf (run_ops (fst (create_profile Map.empty ''u1'' ''Ada'' ''ICU Nurse'' 0))
                    two_attempt_ops) ''u1'' ''skill_x'' = Some perf
      \<and> sp_total_attempts perf = 2 \<and> sp_correct_attempts perf = 1
      \<and> sp_accuracy perf = 1 / 2)"
proof -
  have h1: "Map.empty ''u1'' = (None :: LearnerProfile option)" by simp
  have h2: "\<forall>a \<in> set (attempts_of ''u1'' two_attempt_ops).
      count_list (qa_skill_ids a) ''skill_x'' \<le> 1"
    by (simp add: two_attempt_ops_def sample_attempt_def)
  have h3: "attempts_tagging ''u1'' ''skill_x'' two_attempt_ops \<noteq> []"
    by (simp add: attempts_tagging_def two_attempt_ops_def sample_attempt_def)
  have n: "length (attempts_tagging ''u1'' ''skill_x'' two_attempt_ops) = 2"
    "length (filter qa_correct (attempts_tagging ''u1'' ''skill_x'' two_attempt_ops)) = 1"
    by (simp_all add: attempts_tagging_def two_attempt_ops_def sample_attempt_def)
  from record_attempt_counters [of Map.empty "''u1''" two_attempt_ops "''skill_x''"
      "''Ada''" "''ICU Nurse''" 0, OF h1 h2 h3]
  obtain perf where
    "skill_perf (run_ops (fst (create_profile Map.empty ''u1'' ''Ada'' ''ICU Nurse'' 0))
                    two_attempt_ops) ''u1'' ''skill_x'' = Some perf"
    "sp_total_attempts perf = 2" "sp_correct_attempts perf = 1"
    "sp_accuracy perf = of_int (sp_correct_attempts perf) / of_int (sp_total_attempts perf)"
    unfolding n by auto
  then have "\<exists>perf.
      skill_perf (run_ops (fst (create_profile Map.empty ''u1'' ''Ada'' ''ICU Nurse'' 0))
                    two_attempt_ops) ''u1'' ''skill_x'' = Some perf
      \<and> sp_total_attempts perf = 2 \<and> sp_correct_attempts perf = 1
      \<and> sp_accuracy perf = 1 / 2"
    by auto
  with h1 h3 show ?thesis by (intro conjI)
qed

text \<open>
  The sample store is the store \<open>create_profile\<close> makes. In the session path the fallback
  is applied before the attempt reaches the profile store: submitting an answer to a
  question without skill ids records the attempt under the synthetic id of its topic.
\<close>

lemma fresh_store_sample: "fresh_store = sample_store"
  by (simp add: fresh_store_def sample_store_def sample_profile_def create_profile_def Let_def)

lemma submit_answer_untagged:
  "map_option sp_total_attempts
     (skill_perf (learner_manager (fst (submit_answer (sample_manager [untagged_question])
        ''s1'' 0 ''B'' 30 7 8))) ''u1'' ''topic_sepsis_care'') = Some 1"
  by (simp add: submit_answer_def sample_manager_def sample_session_def untagged_question_def
      sample_question_def skill_ids_or_topic_def topic_skill_id_def replace_def
      sample_store_def sample_profile_def
      record_attempt_def Let_def count_attempt_def
      new_skill_performance_def rate_skill_def update_topic_def strip_def lower_def
      is_space_def char_lower_def ascii_uppercase_def ascii_lowercase_def
      new_topic_performance_def skill_perf_def)

text \<open>
  C7. The code misses the claim on the direct path: \<open>record_attempt\<close> with an attempt whose
  \<open>skill_ids\<close> is empty returns normally, appends the attempt and updates the topic
  aggregate, but creates no skill aggregate: the synthetic id \<open>topic_sepsis_care\<close> of the
  attempt's topic stays untracked and the skill dictionary stays empty.
\<close>

theorem record_attempt_untagged:
  "snd (record_attempt sample_store ''u1'' (sample_attempt [] True) 9) = None
   \<and> topic_skill_id (qa_topic (sample_attempt [] True)) = ''topic_sepsis_care''
   \<and> skill_perf (fst (record_attempt sample_store ''u1'' (sample_attempt [] True) 9))
         ''u1'' ''topic_sepsis_care'' = None
   \<and> map_option lp_skill_performance
         (fst (record_attempt sample_store ''u1'' (sample_attempt [] True) 9) ''u1'') = Some []
   \<and> map_option (length \<circ> lp_attempts)
         (fst (record_attempt sample_store ''u1'' (sample_attempt [] True) 9) ''u1'') = Some 1
   \<and> map_option (map fst \<circ> lp_topic_performance)
         (fst (record_attempt sample_store ''u1'' (sample_attempt [] True) 9) ''u1'')
       = Some [''sepsis care'']"
  by (simp add: topic_skill_id_def replace_def
      sample_store_def sample_profile_def sample_attempt_def
      record_attempt_def Let_def update_topic_def strip_def lower_def
      is_space_def char_lower_def ascii_uppercase_def ascii_lowercase_def
      new_topic_performance_def skill_perf_def)

section \<open>Milestones\<close>

lemma walk_milestones_prefix:
  "walk_milestones (current, nxt) ms =
     (case takeWhile ms_check ms of [] \<Rightarrow> current | met \<Rightarrow> ms_name (last met),
      case dropWhile ms_check ms of [] \<Rightarrow> (if ms = [] then nxt else None) | m # _ \<Rightarrow> Some m)"
proof (induction ms arbitrary: current nxt)
  case Nil
  show ?case by simp
next
  case (Cons m rest)
  show ?case
  proof (cases "ms_check m")
    case True
    then show ?thesis
      by (simp add: Cons.IH split: list.split)
  next
    case False
    then show ?thesis by simp
  qed
qed

lemma gates_of_milestones:
  "map gate_of (milestones q t e a) = ladder_gates q t e a"
  by (simp add: milestones_def ladder_gates_def gate_of_def)

lemma current_of_gates:
  "current_of (map gate_of ms)
     = (case takeWhile ms_check ms of [] \<Rightarrow> ''Novice'' | met \<Rightarrow> ms_name (last met))"
proof -
  have "takeWhile snd (map gate_of ms) = map gate_of (takeWhile ms_check ms)"
    by (simp add: takeWhile_map gate_of_def comp_def)
  then show ?thesis
    by (simp add: current_of_def last_map gate_of_def split: list.split)
qed

lemma next_of_gates:
  "next_of (map gate_of ms)
     = (case dropWhile ms_check ms of [] \<Rightarrow> ''Master'' | m # _ \<Rightarrow> ms_name m)"
proof -
  have eq: "dropWhile snd (map gate_of ms) = map gate_of (dropWhile ms_check ms)"
    by (simp add: dropWhile_map gate_of_def comp_def)
  show ?thesis
    by (cases "dropWhile ms_check ms")
      (simp_all add: next_of_def eq gate_of_def del: dropWhile_eq_Nil_conv)
qed

lemma all_met_gates: "all_met (map gate_of ms) \<longleftrightarrow> dropWhile ms_check ms = []"
  by (simp add: all_met_def dropWhile_map gate_of_def comp_def)

lemma all_met_current:
  assumes "all_met gates" and "gates \<noteq> []"
  shows "current_of gates = fst (last gates)"
proof -
  from assms(1) have "takeWhile snd gates = gates"
    by (simp add: all_met_def)
  with assms(2) show ?thesis by (cases gates) (simp_all add: current_of_def)
qed

lemma all_met_master:
  assumes "all_met (ladder_gates q t e a)"
  shows "current_of (ladder_gates q t e a) = ''Master''"
proof -
  have "current_of (ladder_gates q t e a) = fst (last (ladder_gates q t e a))"
    using assms by (rule all_met_current) (simp add: ladder_gates_def)
  then show ?thesis by (simp add: ladder_gates_def)
qed

lemma percent_exact:
  "(if (0::int) < int (length (lp_attempts p))
    then rat_of_int (int (length (filter qa_correct (lp_attempts p))))
           / rat_of_int (int (length (lp_attempts p))) * 100 else 0) = exact_accuracy p"
  by (simp add: exact_accuracy_def)

lemma performance_data_counters:
  assumes "profiles learner_id = Some p"
  shows "\<exists>d. get_all_performance_data profiles learner_id = Some d
    \<and> pd_total_questions d = int (length (lp_attempts p))
    \<and> pd_topics_practiced d = int (length (lp_topic_performance p))
    \<and> pd_exams_completed d = int (length (lp_exam_history p))
    \<and> pd_overall_accuracy d = py_round (exact_accuracy p) 1"
  using assms
  by (simp only: get_all_performance_data_def Let_def option.case percent_exact) simp

lemma milestones_nonempty: "milestones q t e a \<noteq> []"
  by (simp add: milestones_def)

lemma get_next_milestone_walk:
  assumes "profiles learner_id = Some p"
  shows "get_next_milestone profiles learner_id =
    (case dropWhile ms_check (milestones (int (length (lp_attempts p)))
                    (int (length (lp_topic_performance p)))
                    (int (length (lp_exam_history p))) (py_round (exact_accuracy p) 1)) of
          [] \<Rightarrow> \<lparr>mi_current = current_of (rounded_gates p),
                  mi_next = ''Master'', mi_progress = ''Complete'',
                  mi_description = ''You've mastered all milestones!''\<rparr>
        | m # _ \<Rightarrow> \<lparr>mi_current = current_of (rounded_gates p),
                  mi_next = ms_name m, mi_progress = ms_progress m,
                  mi_description = ms_description m\<rparr>)"
proof -
  let ?ladder = "milestones (int (length (lp_attempts p))) (int (length (lp_topic_performance p)))
                    (int (length (lp_exam_history p))) (py_round (exact_accuracy p) 1)"
  from assms obtain d where d: "get_all_performance_data profiles learner_id = Some d"
    "pd_total_questions d = int (length (lp_attempts p))"
    "pd_topics_practiced d = int (length (lp_topic_performance p))"
    "pd_exams_completed d = int (length (lp_exam_history p))"
    "pd_overall_accuracy d = py_round (exact_accuracy p) 1"
    using performance_data_counters [of profiles learner_id p] by blast
  have cur: "current_of (rounded_gates p)
      = (case takeWhile ms_check ?ladder of [] \<Rightarrow> ''Novice'' | met \<Rightarrow> ms_name (last met))"
    by (simp only: rounded_gates_def gates_of_milestones [symmetric] current_of_gates)
  have run: "get_next_milestone profiles learner_id =
      (case walk_milestones (''Novice'', case ?ladder of [] \<Rightarrow> None | m # _ \<Rightarrow> Some m) ?ladder of
         (current_milestone, next_milestone) \<Rightarrow>
           (case next_milestone of
                Some m \<Rightarrow>
                  \<lparr>mi_current = current_milestone, mi_next = ms_name m,
                   mi_progress = ms_progress m, mi_description = ms_description m\<rparr>
              | None \<Rightarrow>
                  \<lparr>mi_current = current_milestone, mi_next = ''Master'',
                   mi_progress = ''Complete'',
                   mi_description = ''You've mastered all milestones!''\<rparr>))"
    using assms by (simp add: get_next_milestone_def Let_def d)
  show ?thesis
    unfolding run walk_milestones_prefix cur
    by (cases "dropWhile ms_check ?ladder")
      (simp_all add: milestones_nonempty del: dropWhile_eq_Nil_conv)
qed

lemma get_next_milestone_gates:
  assumes "profiles learner_id = Some p"
  shows "mi_current (get_next_milestone profiles learner_id) = current_of (rounded_gates p)"
    and "mi_next (get_next_milestone profiles learner_id) = next_of (rounded_gates p)"
    and "all_met (rounded_gates p) \<Longrightarrow>
           mi_progress (get_next_milestone profiles learner_id) = ''Complete''"
proof -
  let ?ladder = "milestones (int (length (lp_attempts p))) (int (length (lp_topic_performance p)))
                    (int (length (lp_exam_history p))) (py_round (exact_accuracy p) 1)"
  have gates: "rounded_gates p = map gate_of ?ladder"
    by (simp only: rounded_gates_def gates_of_milestones)
  note walk = get_next_milestone_walk [of profiles learner_id p, OF assms]
  show "mi_current (get_next_milestone profiles learner_id) = current_of (rounded_gates p)"
    unfolding walk
    by (cases "dropWhile ms_check ?ladder") (simp_all del: dropWhile_eq_Nil_conv)
  show "mi_next (get_next_milestone profiles learner_id) = next_of (rounded_gates p)"
    unfolding walk gates next_of_gates
    by (cases "dropWhile ms_check ?ladder") (simp_all del: dropWhile_eq_Nil_conv)
  show "mi_progress (get_next_milestone profiles learner_id) = ''Complete''"
    if "all_met (rounded_gates p)"
  proof -
    from that have "dropWhile ms_check ?ladder = []"
      by (simp only: gates all_met_gates)
    then show ?thesis unfolding walk by (simp del: dropWhile_eq_Nil_conv)
  qed
qed

lemma keen_counters:
  "length (lp_attempts keen_profile) = 113"
  "length (filter qa_correct (lp_attempts keen_profile)) = 96"
  "length (lp_topic_performance keen_profile) = 3"
  "length (lp_exam_history keen_profile) = 3"
  by (simp_all add: keen_profile_def sample_profile_def sample_attempt_def filter_replicate)

lemma keen_accuracy: "exact_accuracy keen_profile = 9600 / 113"
proof -
  have "lp_attempts keen_profile \<noteq> []"
    using keen_counters(1) by auto
  then show ?thesis by (simp add: exact_accuracy_def keen_counters)
qed

lemma keen_rounded: "py_round (9600 / 113) (Suc 0) = 85"
  by code_simp

text \<open>
  C6, as stated, fails at the accuracy gates: with 84.96 percent of 113 questions right
  (and three topics and three exams) the Expert gate of 85 percent is not met, so the
  ladder of the claim gives current Proficient and next Expert; the code compares the
  percentage rounded to one decimal, 85.0, and reports current Expert and next Master.
\<close>

theorem next_milestone_rounds_accuracy:
  "exact_accuracy keen_profile < 85
   \<and> current_of (stated_gates keen_profile) = ''Proficient''
   \<and> next_of (stated_gates keen_profile) = ''Expert''
   \<and> mi_current (get_next_milestone [''u1'' \<mapsto> keen_profile] ''u1'') = ''Expert''
   \<and> mi_next (get_next_milestone [''u1'' \<mapsto> keen_profile] ''u1'') = ''Master''"
proof -
  have h: "[''u1'' \<mapsto> keen_profile] ''u1'' = Some keen_profile" by simp
  have stated: "stated_gates keen_profile =
      [(''Beginner'', True), (''Explorer'', True), (''Committed'', True),
       (''Proficient'', True), (''Expert'', False), (''Master'', False)]"
    by (simp add: stated_gates_def ladder_gates_def keen_counters keen_accuracy)
  have rounded: "rounded_gates keen_profile =
      [(''Beginner'', True), (''Explorer'', True), (''Committed'', True),
       (''Proficient'', True), (''Expert'', True), (''Master'', False)]"
    by (simp add: rounded_gates_def ladder_gates_def keen_counters keen_accuracy keen_rounded)
  have "exact_accuracy keen_profile < 85" by (simp add: keen_accuracy)
  moreover have "current_of (stated_gates keen_profile) = ''Proficient''"
    "next_of (stated_gates keen_profile) = ''Expert''"
    by (simp_all add: stated current_of_def next_of_def)
  moreover have "mi_current (get_next_milestone [''u1'' \<mapsto> keen_profile] ''u1'') = ''Expert''"
    by (simp add: get_next_milestone_gates(1) [of "[''u1'' \<mapsto> keen_profile]" "''u1''" keen_profile, OF h] rounded current_of_def)
  moreover have "mi_next (get_next_milestone [''u1'' \<mapsto> keen_profile] ''u1'') = ''Master''"
    by (simp add: get_next_milestone_gates(2) [of "[''u1'' \<mapsto> keen_profile]" "''u1''" keen_profile, OF h] rounded next_of_def)
  ultimately show ?thesis by simp
qed

text \<open>
  C6, amended. For a learner with a profile, \<open>get_next_milestone\<close> walks the ladder
  Beginner (5 questions), Explorer (3 topics), Committed (3 exams), Proficient
  (25 questions and 70 percent), Expert (50 and 85), Master (100 and 90) in order, the
  accuracy being the overall accuracy in percent rounded to one decimal: \<open>current\<close> is the
  last milestone of the met prefix, or Novice; \<open>next\<close> is the first unmet milestone; and
  when all are met \<open>current\<close> is Master and the progress is Complete.
\<close>

theorem next_milestone_ladder:
  assumes "profiles learner_id = Some p"
  shows "mi_current (get_next_milestone profiles learner_id) = current_of (rounded_gates p)
    \<and> mi_next (get_next_milestone profiles learner_id) = next_of (rounded_gates p)
    \<and> (all_met (rounded_gates p) \<longrightarrow>
          mi_current (get_next_milestone profiles learner_id) = ''Master''
          \<and> mi_progress (get_next_milestone profiles learner_id) = ''Complete'')"
proof -
  note gates = get_next_milestone_gates [of profiles learner_id p, OF assms]
  have master: "current_of (rounded_gates p) = ''Master''" if "all_met (rounded_gates p)"
    using that unfolding rounded_gates_def by (rule all_met_master)
  from gates master show ?thesis by simp
qed

theorem next_milestone_ladder_witness:
  "sample_store ''u1'' = Some sample_profile
   \<and> mi_current (get_next_milestone sample_store ''u1'') = ''Novice''
   \<and> mi_next (get_next_milestone sample_store ''u1'') = ''Beginner''"
proof -
  have h: "sample_store ''u1'' = Some sample_profile" by (simp add: sample_store_def)
  have gates: "rounded_gates sample_profile =
      [(''Beginner'', False), (''Explorer'', False), (''Committed'', False),
       (''Proficient'', False), (''Expert'', False), (''Master'', False)]"
    by (simp add: rounded_gates_def ladder_gates_def sample_profile_def)
  from next_milestone_ladder [of sample_store "''u1''" sample_profile, OF h] h
  show ?thesis by (simp add: gates current_of_def next_of_def)
qed

section \<open>Focused exams\<close>

lemma in_set_update:
  "e \<in> set (AList.update k v al) \<Longrightarrow> e = (k, v) \<or> e \<in> set al"
  by (induction al) (auto split: if_splits)

lemma length_update_le: "length (AList.update k v al) \<le> Suc (length al)"
  by (induction al) simp_all

lemma foldl_update_keys:
  "fst ` set (foldl (\<lambda>d x. AList.update (key x) (val x) d) d0 xs) = fst ` set d0 \<union> key ` set xs"
  by (induction xs arbitrary: d0) (auto simp: dom_update)

lemma foldl_update_length:
  "length (foldl (\<lambda>d x. AList.update (key x) (val x) d) d0 xs) \<le> length d0 + length xs"
proof (induction xs arbitrary: d0)
  case Nil
  show ?case by simp
next
  case (Cons x xs)
  have "length (AList.update (key x) (val x) d0) \<le> Suc (length d0)"
    by (rule length_update_le)
  with Cons.IH [of "AList.update (key x) (val x) d0"] show ?case by simp
qed

lemma foldl_update_values:
  assumes "e \<in> set (foldl (\<lambda>d x. AList.update (key x) (val x) d) d0 xs)"
  shows "e \<in> set d0 \<or> (\<exists>x \<in> set xs. snd e = val x)"
  using assms
proof (induction xs arbitrary: d0)
  case Nil
  then show ?case by simp
next
  case (Cons x xs)
  from Cons.prems have "e \<in> set (foldl (\<lambda>d x. AList.update (key x) (val x) d)
      (AList.update (key x) (val x) d0) xs)" by simp
  from Cons.IH [OF this] in_set_update [of e "key x" "val x" d0] show ?case by auto
qed

lemma slice_to_take: "0 \<le> n \<Longrightarrow> slice_to n xs = take (nat n) xs"
  by (simp add: slice_to_def)

lemma generate_focused_exam_review:
  assumes "weak_skills_of profiles ontology learner_id = []"
    and "weak_topics_of profiles learner_id = []"
  shows "ep_focus (generate_focused_exam profiles ontology learner_id n) = ''comprehensive_review''"
    and "ep_skill_distribution (generate_focused_exam profiles ontology learner_id n) = []"
    and "ep_topic_distribution (generate_focused_exam profiles ontology learner_id n) = []"
  using assms
  by (simp_all add: generate_focused_exam_def weak_skills_of_def weak_topics_of_def Let_def)

lemma replicate_allocations:
  assumes "\<forall>e \<in> set xs. f e = q" and "\<forall>e \<in> set ys. g e = q"
  shows "map f xs @ map g ys = replicate (length xs + length ys) q"
proof -
  from assms(1) have "map f xs = replicate (length xs) q"
    by (induction xs) simp_all
  moreover from assms(2) have "map g ys = replicate (length ys) q"
    by (induction ys) simp_all
  ultimately show ?thesis by (simp add: replicate_add)
qed

lemma generate_focused_exam_remediation:
  assumes "\<not> (weak_skills_of profiles ontology learner_id = []
              \<and> weak_topics_of profiles learner_id = [])"
  shows "generate_focused_exam profiles ontology learner_id n =
    \<lparr>ep_focus = ''gap_remediation'',
     ep_message = ''This exam focuses on your ''
        @ str_of_int (int (length (map wt_topic (take 3 (weak_topics_of profiles learner_id))
             @ map ws_skill_name (take 2 (weak_skills_of profiles ontology learner_id)))))
        @ '' weakest areas: ''
        @ join '', '' (map wt_topic (take 3 (weak_topics_of profiles learner_id))
             @ map ws_skill_name (take 2 (weak_skills_of profiles ontology learner_id))),
     ep_skill_distribution =
       foldl (\<lambda>d skill_info.
                AList.update (ws_skill_id skill_info)
                  \<lparr>sa_skill_name = ws_skill_name skill_info,
                   sa_num_questions =
                     max 2 (n div (int (length (weak_topics_of profiles learner_id))
                                     + int (length (weak_skills_of profiles ontology learner_id)))),
                   sa_current_accuracy = percent (ws_accuracy skill_info)\<rparr> d)
         [] (take 2 (weak_skills_of profiles ontology learner_id)),
     ep_topic_distribution =
       foldl (\<lambda>d topic_info.
                AList.update (wt_topic topic_info)
                  \<lparr>ta_num_questions =
                     max 2 (n div (int (length (weak_topics_of profiles learner_id))
                                     + int (length (weak_skills_of profiles ontology learner_id)))),
                   ta_current_accuracy = percent (wt_accuracy topic_info)\<rparr> d)
         [] (take 3 (weak_topics_of profiles learner_id)),
     ep_recommended_topics =
       Some (map wt_topic (take 3 (weak_topics_of profiles learner_id))
             @ map ws_skill_name (take 2 (weak_skills_of profiles ontology learner_id)))\<rparr>"
proof -
  have pos: "max (int (length (weak_topics_of profiles learner_id))
                + int (length (weak_skills_of profiles ontology learner_id))) 1
      = int (length (weak_topics_of profiles learner_id))
                + int (length (weak_skills_of profiles ontology learner_id))"
    using assms by (cases "weak_topics_of profiles learner_id";
        cases "weak_skills_of profiles ontology learner_id") simp_all
  show ?thesis
    using assms
    unfolding generate_focused_exam_def weak_skills_of_def [symmetric]
      weak_topics_of_def [symmetric] Let_def
    by (simp only: if_not_P if_False pos slice_to_take [of 3, simplified]
        slice_to_take [of 2, simplified])
qed

lemma keys_of_plan:
  assumes "\<not> (weak_skills_of profiles ontology learner_id = []
              \<and> weak_topics_of profiles learner_id = [])"
  shows "fst ` set (ep_topic_distribution (generate_focused_exam profiles ontology learner_id n))
           = wt_topic ` set (take 3 (weak_topics_of profiles learner_id))"
    and "fst ` set (ep_skill_distribution (generate_focused_exam profiles ontology learner_id n))
           = ws_skill_id ` set (take 2 (weak_skills_of profiles ontology learner_id))"
    and "length (ep_topic_distribution (generate_focused_exam profiles ontology learner_id n)) \<le> 3"
    and "length (ep_skill_distribution (generate_focused_exam profiles ontology learner_id n)) \<le> 2"
proof -
  note plan = generate_focused_exam_remediation [OF assms, of n]
  show "fst ` set (ep_topic_distribution (generate_focused_exam profiles ontology learner_id n))
           = wt_topic ` set (take 3 (weak_topics_of profiles learner_id))"
    by (simp add: plan foldl_update_keys)
  show "fst ` set (ep_skill_distribution (generate_focused_exam profiles ontology learner_id n))
           = ws_skill_id ` set (take 2 (weak_skills_of profiles ontology learner_id))"
    by (simp add: plan foldl_update_keys)
  have "length (ep_topic_distribution (generate_focused_exam profiles ontology learner_id n))
      \<le> length (take 3 (weak_topics_of profiles learner_id))"
    using foldl_update_length [of wt_topic _ "[]" "take 3 (weak_topics_of profiles learner_id)"]
    by (simp add: plan)
  then show "length (ep_topic_distribution (generate_focused_exam profiles ontology learner_id n)) \<le> 3"
    by simp
  have "length (ep_skill_distribution (generate_focused_exam profiles ontology learner_id n))
      \<le> length (take 2 (weak_skills_of profiles ontology learner_id))"
    using foldl_update_length [of ws_skill_id _ "[]"
        "take 2 (weak_skills_of profiles ontology learner_id)"]
    by (simp add: plan)
  then show "length (ep_skill_distribution (generate_focused_exam profiles ontology learner_id n)) \<le> 2"
    by simp
qed

lemma allocations_of_plan:
  assumes "\<not> (weak_skills_of profiles ontology learner_id = []
              \<and> weak_topics_of profiles learner_id = [])"
  shows "allocations (generate_focused_exam profiles ontology learner_id n)
    = replicate (listed_areas (generate_focused_exam profiles ontology learner_id n))
        (max 2 (n div (int (length (weak_topics_of profiles learner_id))
                        + int (length (weak_skills_of profiles ontology learner_id)))))"
proof -
  note plan = generate_focused_exam_remediation [OF assms, of n]
  let ?q = "max 2 (n div (int (length (weak_topics_of profiles learner_id))
                        + int (length (weak_skills_of profiles ontology learner_id))))"
  have topics: "\<forall>e \<in> set (ep_topic_distribution
      (generate_focused_exam profiles ontology learner_id n)). ta_num_questions (snd e) = ?q"
  proof
    fix e
    assume "e \<in> set (ep_topic_distribution (generate_focused_exam profiles ontology learner_id n))"
    then have "e \<in> set (foldl (\<lambda>d topic_info.
                AList.update (wt_topic topic_info)
                  \<lparr>ta_num_questions = ?q,
                   ta_current_accuracy = percent (wt_accuracy topic_info)\<rparr> d)
         [] (take 3 (weak_topics_of profiles learner_id)))"
      by (simp add: plan)
    from foldl_update_values [OF this] show "ta_num_questions (snd e) = ?q" by auto
  qed
  have skills: "\<forall>e \<in> set (ep_skill_distribution
      (generate_focused_exam profiles ontology learner_id n)). sa_num_questions (snd e) = ?q"
  proof
    fix e
    assume "e \<in> set (ep_skill_distribution (generate_focused_exam profiles ontology learner_id n))"
    then have "e \<in> set (foldl (\<lambda>d skill_info.
                AList.update (ws_skill_id skill_info)
                  \<lparr>sa_skill_name = ws_skill_name skill_info,
                   sa_num_questions = ?q,
                   sa_current_accuracy = percent (ws_accuracy skill_info)\<rparr> d)
         [] (take 2 (weak_skills_of profiles ontology learner_id)))"
      by (simp add: plan)
    from foldl_update_values [OF this] show "sa_num_questions (snd e) = ?q" by auto
  qed
  from replicate_allocations [OF topics skills] show ?thesis
    by (simp only: allocations_def listed_areas_def)
qed

lemma length_slice_to_5: "length (slice_to 5 xs) \<le> 5"
  by (simp add: slice_to_def)

lemma struggling_weak_topics:
  "map wt_topic (weak_topics_of struggling_store ''u1'') = [''Sepsis'', ''Shock'', ''Ards'', ''Copd'']"
  by (simp add: weak_topics_of_def get_weak_topics_def get_topic_weaknesses_def
      struggling_store_def struggling_profile_def sample_profile_def keen_topic_def
      topic_summary_of_def weak_topic_of_def slice_to_def title_def char_upper_def
      char_lower_def is_cased_def ascii_uppercase_def ascii_lowercase_def)

lemma struggling_weak_skills:
  "map ws_skill_id (weak_skills_of struggling_store Map.empty ''u1'') = [''skill_x'']"
  by (simp add: weak_skills_of_def get_weak_skills_def get_skill_gaps_def
      struggling_store_def struggling_profile_def sample_profile_def graded_skill_def
      skill_summary_of_def weak_skill_of_def slice_to_def)

lemma struggling_lengths:
  "length (weak_topics_of struggling_store ''u1'') = 4"
  "length (weak_skills_of struggling_store Map.empty ''u1'') = 1"
  using arg_cong [OF struggling_weak_topics, of length]
    arg_cong [OF struggling_weak_skills, of length]
  by simp_all

lemma struggling_weak:
  "\<not> (weak_skills_of struggling_store Map.empty ''u1'' = []
       \<and> weak_topics_of struggling_store ''u1'' = [])"
  using struggling_lengths by auto

lemma struggling_listed:
  "listed_areas (generate_focused_exam struggling_store Map.empty ''u1'' n) = 4"
proof -
  note plan = generate_focused_exam_remediation [OF struggling_weak, of n]
  have ws: "take 2 (weak_skills_of struggling_store Map.empty ''u1'')
      = weak_skills_of struggling_store Map.empty ''u1''"
    by (simp add: struggling_lengths)
  obtain a b c d where wt: "weak_topics_of struggling_store ''u1'' = [a, b, c, d]"
    "wt_topic a = ''Sepsis''" "wt_topic b = ''Shock''" "wt_topic c = ''Ards''"
    using struggling_weak_topics by (auto simp: map_eq_Cons_conv)
  obtain s where sk: "weak_skills_of struggling_store Map.empty ''u1'' = [s]"
    using struggling_weak_skills by (auto simp: map_eq_Cons_conv)
  show ?thesis
    by (simp add: listed_areas_def plan wt sk)
qed

text \<open>
  C9, as stated, fails when more weak areas are found than the plan lists: with four weak
  topics and one weak skill, 20 questions are divided by five, each of the four listed
  areas (three topics and the skill) is assigned 4, where an even split of 20 on four
  areas gives 5; 16 of the 20 questions are assigned.
\<close>

theorem focused_exam_uneven:
  "listed_areas (generate_focused_exam struggling_store Map.empty ''u1'' 20) = 4
   \<and> even_share 20 (listed_areas (generate_focused_exam struggling_store Map.empty ''u1'' 20)) = 5
   \<and> allocations (generate_focused_exam struggling_store Map.empty ''u1'' 20) = [4, 4, 4, 4]
   \<and> sum_list (allocations (generate_focused_exam struggling_store Map.empty ''u1'' 20)) = 16"
proof -
  have "allocations (generate_focused_exam struggling_store Map.empty ''u1'' 20)
      = replicate 4 (max 2 (20 div (4 + 1)))"
    using allocations_of_plan [OF struggling_weak, of 20]
    by (simp only: struggling_listed struggling_lengths) simp
  then have "allocations (generate_focused_exam struggling_store Map.empty ''u1'' 20) = [4, 4, 4, 4]"
    by (simp add: numeral_eq_Suc)
  then show ?thesis by (simp add: struggling_listed even_share_def)
qed

text \<open>
  C9, amended. \<open>generate_focused_exam\<close> returns the comprehensive review with empty skill
  and topic distributions when the learner has no weak topic and no weak skill. Otherwise
  the plan is a gap remediation listing the first three weak topics and the first two weak
  skills, topics first, and assigns to each listed area the same number of questions: the
  even share, with the minimum of 2, of \<open>num_questions\<close> among all the weak topics and weak
  skills found (at most five of each), listed or not.
\<close>

theorem focused_exam_plan:
  "(weak_skills_of profiles ontology learner_id = [] \<and> weak_topics_of profiles learner_id = []
      \<longrightarrow> ep_focus (generate_focused_exam profiles ontology learner_id n) = ''comprehensive_review''
        \<and> ep_skill_distribution (generate_focused_exam profiles ontology learner_id n) = []
        \<and> ep_topic_distribution (generate_focused_exam profiles ontology learner_id n) = [])
   \<and> (\<not> (weak_skills_of profiles ontology learner_id = []
            \<and> weak_topics_of profiles learner_id = [])
      \<longrightarrow> ep_focus (generate_focused_exam profiles ontology learner_id n) = ''gap_remediation''
        \<and> fst ` set (ep_topic_distribution (generate_focused_exam profiles ontology learner_id n))
            = wt_topic ` set (take 3 (weak_topics_of profiles learner_id))
        \<and> fst ` set (ep_skill_distribution (generate_focused_exam profiles ontology learner_id n))
            = ws_skill_id ` set (take 2 (weak_skills_of profiles ontology learner_id))
        \<and> length (ep_topic_distribution (generate_focused_exam profiles ontology learner_id n)) \<le> 3
        \<and> length (ep_skill_distribution (generate_focused_exam profiles ontology learner_id n)) \<le> 2
        \<and> allocations (generate_focused_exam profiles ontology learner_id n)
            = replicate (listed_areas (generate_focused_exam profiles ontology learner_id n))
                (even_share n (length (weak_topics_of profiles learner_id)
                                + length (weak_skills_of profiles ontology learner_id)))
        \<and> ep_recommended_topics (generate_focused_exam profiles ontology learner_id n)
            = Some (map wt_topic (take 3 (weak_topics_of profiles learner_id))
                    @ map ws_skill_name (take 2 (weak_skills_of profiles ontology learner_id))))
   \<and> length (weak_topics_of profiles learner_id) \<le> 5
   \<and> length (weak_skills_of profiles ontology learner_id) \<le> 5"
proof (intro conjI impI)
  assume none: "weak_skills_of profiles ontology learner_id = []
      \<and> weak_topics_of profiles learner_id = []"
  then have a: "weak_skills_of profiles ontology learner_id = []"
    and b: "weak_topics_of profiles learner_id = []" by simp_all
  from a b show "ep_focus (generate_focused_exam profiles ontology learner_id n) = ''comprehensive_review''"
    by (rule generate_focused_exam_review)
  from a b show "ep_skill_distribution (generate_focused_exam profiles ontology learner_id n) = []"
    by (rule generate_focused_exam_review)
  from a b show "ep_topic_distribution (generate_focused_exam profiles ontology learner_id n) = []"
    by (rule generate_focused_exam_review)
next
  assume some: "\<not> (weak_skills_of profiles ontology learner_id = []
            \<and> weak_topics_of profiles learner_id = [])"
  note plan = generate_focused_exam_remediation [OF some, of n]
  show "ep_focus (generate_focused_exam profiles ontology learner_id n) = ''gap_remediation''"
    by (simp add: plan)
  show "ep_recommended_topics (generate_focused_exam profiles ontology learner_id n)
            = Some (map wt_topic (take 3 (weak_topics_of profiles learner_id))
                    @ map ws_skill_name (take 2 (weak_skills_of profiles ontology learner_id)))"
    by (simp add: plan)
  from some show "fst ` set (ep_topic_distribution (generate_focused_exam profiles ontology learner_id n))
            = wt_topic ` set (take 3 (weak_topics_of profiles learner_id))"
    by (rule keys_of_plan)
  from some show "fst ` set (ep_skill_distribution (generate_focused_exam profiles ontology learner_id n))
            = ws_skill_id ` set (take 2 (weak_skills_of profiles ontology learner_id))"
    by (rule keys_of_plan)
  from some show "length (ep_topic_distribution (generate_focused_exam profiles ontology learner_id n)) \<le> 3"
    by (rule keys_of_plan)
  from some show "length (ep_skill_distribution (generate_focused_exam profiles ontology learner_id n)) \<le> 2"
    by (rule keys_of_plan)
  from allocations_of_plan [OF some, of n]
  show "allocations (generate_focused_exam profiles ontology learner_id n)
            = replicate (listed_areas (generate_focused_exam profiles ontology learner_id n))
                (even_share n (length (weak_topics_of profiles learner_id)
                                + length (weak_skills_of profiles ontology learner_id)))"
    by (simp add: even_share_def)
next
  show "length (weak_topics_of profiles learner_id) \<le> 5"
    by (simp only: weak_topics_of_def get_weak_topics_def length_slice_to_5)
  show "length (weak_skills_of profiles ontology learner_id) \<le> 5"
    by (simp only: weak_skills_of_def get_weak_skills_def length_slice_to_5)
qed

theorem focused_exam_plan_witness:
  "length (weak_topics_of struggling_store ''u1'') = 4
   \<and> length (weak_skills_of struggling_store Map.empty ''u1'') = 1
   \<and> ep_focus (generate_focused_exam struggling_store Map.empty ''u1'' 20) = ''gap_remediation''
   \<and> allocations (generate_focused_exam struggling_store Map.empty ''u1'' 20)
       = replicate (listed_areas (generate_focused_exam struggling_store Map.empty ''u1'' 20))
           (even_share 20 5)"
  using focused_exam_plan [of struggling_store Map.empty "''u1''" 20] struggling_weak
    struggling_lengths
  by simp

section \<open>Recorded tiers\<close>

text \<open>
  C3. In a profile reached from its creation by any operations of the store, every skill
  that the learner's recorded attempts are tagged with has an aggregate whose total and
  correct counts are the numbers of times the attempts, and the correct ones among them,
  list the skill, whose accuracy is the quotient of the two, and whose stored proficiency
  tier is the value of the specification's table at that cumulative accuracy and total:
  novice below 2 attempts; for 2 to 3 attempts beginner from accuracy 0.5 and novice
  below; for 4 to 7 attempts advanced from 0.8, intermediate from 0.6, beginner below;
  from 8 attempts expert from 0.85, advanced from 0.75, intermediate from 0.6, beginner
  below.
\<close>

theorem recorded_proficiency_tier:
  assumes "profiles l = None"
    and "0 < occurrences k (attempts_of l ops)"
  shows "\<exists>perf.
      skill_perf (run_ops (fst (create_profile profiles l name role t0)) ops) l k = Some perf
      \<and> sp_total_attempts perf = occurrences k (attempts_of l ops)
      \<and> sp_correct_attempts perf = occurrences k (filter qa_correct (attempts_of l ops))
      \<and> sp_accuracy perf = of_int (sp_correct_attempts perf) / of_int (sp_total_attempts perf)
      \<and> sp_proficiency_level perf
          = proficiency_table
              (of_int (occurrences k (filter qa_correct (attempts_of l ops)))
                 / of_int (occurrences k (attempts_of l ops)))
              (occurrences k (attempts_of l ops))"
proof -
  let ?start = "fst (create_profile profiles l name role t0)"
  obtain p0 where p0: "?start l = Some p0" "lp_skill_performance p0 = []"
    using assms(1) by (simp add: create_profile_def Let_def)
  have sound0: "sound_skills (lp_skill_performance p0)"
    by (simp add: p0(2) sound_skills_def)
  from run_ops_counts [of ?start l p0 ops, OF p0(1) sound0] obtain p' where
    p': "run_ops ?start ops l = Some p'" and sound: "sound_skills (lp_skill_performance p')"
    and tot: "skill_total (lp_skill_performance p') k
            = skill_total (lp_skill_performance p0) k + occurrences k (attempts_of l ops)"
    and cor: "skill_correct (lp_skill_performance p') k
            = skill_correct (lp_skill_performance p0) k
              + occurrences k (filter qa_correct (attempts_of l ops))"
    by blast
  have zero: "skill_total (lp_skill_performance p0) k = 0"
    "skill_correct (lp_skill_performance p0) k = 0"
    by (simp_all add: p0(2) skill_total_def skill_correct_def)
  from tot zero assms(2) have "skill_total (lp_skill_performance p') k \<noteq> 0" by simp
  then obtain perf where perf: "map_of (lp_skill_performance p') k = Some perf"
    by (auto simp: skill_total_def split: option.splits)
  with sound have sp: "sound_performance perf" by (simp add: sound_skills_def)
  have found: "skill_perf (run_ops ?start ops) l k = Some perf"
    by (simp add: skill_perf_def p' perf)
  have total: "sp_total_attempts perf = occurrences k (attempts_of l ops)"
    using tot zero perf by (simp add: skill_total_def)
  have right: "sp_correct_attempts perf = occurrences k (filter qa_correct (attempts_of l ops))"
    using cor zero perf by (simp add: skill_correct_def)
  have acc: "sp_accuracy perf = of_int (sp_correct_attempts perf) / of_int (sp_total_attempts perf)"
    using sp by (simp add: sound_performance_def)
  have "sp_proficiency_level perf = proficiency_table (sp_accuracy perf) (sp_total_attempts perf)"
    using sp by (simp add: sound_performance_def tier_stored_def)
  then have tier: "sp_proficiency_level perf
          = proficiency_table
              (of_int (occurrences k (filter qa_correct (attempts_of l ops)))
                 / of_int (occurrences k (attempts_of l ops)))
              (occurrences k (attempts_of l ops))"
    by (simp only: acc total right)
  from found total right acc tier show ?thesis by blast
qed

theorem recorded_proficiency_tier_witness:
  "Map.empty ''u1'' = (None :: LearnerProfile option)
   \<and> 0 < occurrences ''skill_x'' (attempts_of ''u1'' nine_of_ten_ops)
   \<and> (\<exists>perf.
      skill_perf (run_ops (fst (create_profile Map.empty ''u1'' ''Ada'' ''ICU Nurse'' 0))
                    nine_of_ten_ops) ''u1'' ''skill_x'' = Some perf
      \<and> sp_total_attempts perf = 10 \<and> sp_correct_attempts perf = 9
      \<and> sp_accuracy perf = 9 / 10
      \<and> sp_proficiency_level perf = ''expert'')"
proof -
  have h1: "Map.empty ''u1'' = (None :: LearnerProfile option)" by simp
  have n: "occurrences ''skill_x'' (attempts_of ''u1'' nine_of_ten_ops) = 10"
    "occurrences ''skill_x'' (filter qa_correct (attempts_of ''u1'' nine_of_ten_ops)) = 9"
    by (simp_all add: nine_of_ten_ops_def sample_attempt_def numeral_eq_Suc)
  have h2: "0 < occurrences ''skill_x'' (attempts_of ''u1'' nine_of_ten_ops)"
    by (simp add: n)
  have tier: "proficiency_table (9 / 10) 10 = ''expert''"
    by (simp add: proficiency_table_def)
  from recorded_proficiency_tier [of Map.empty "''u1''" "''skill_x''" nine_of_ten_ops
      "''Ada''" "''ICU Nurse''" 0, OF h1 h2]
  obtain perf where
    "skill_perf (run_ops (fst (create_profile Map.empty ''u1'' ''Ada'' ''ICU Nurse'' 0))
                    nine_of_ten_ops) ''u1'' ''skill_x'' = Some perf"
    "sp_total_attempts perf = 10" "sp_correct_attempts perf = 9"
    "sp_accuracy perf = of_int (sp_correct_attempts perf) / of_int (sp_total_attempts perf)"
    "sp_proficiency_level perf = ''expert''"
    unfolding n using tier by auto
  then have "\<exists>perf.
      skill_perf (run_ops (fst (create_profile Map.empty ''u1'' ''Ada'' ''ICU Nurse'' 0))
                    nine_of_ten_ops) ''u1'' ''skill_x'' = Some perf
      \<and> sp_total_attempts perf = 10 \<and> sp_correct_attempts perf = 9
      \<and> sp_accuracy perf = 9 / 10
      \<and> sp_proficiency_level perf = ''expert''"
    by auto
  with h1 h2 show ?thesis by (intro conjI)
qed

section \<open>Completing a session\<close>

lemma round_half_even_error: "\<bar>of_int (round_half_even y) - y\<bar> \<le> 1 / 2"
proof -
  have "of_int \<lfloor>y\<rfloor> \<le> y" and "y < of_int \<lfloor>y\<rfloor> + 1" by linarith+
  then show ?thesis
    by (auto simp: round_half_even_def Let_def abs_le_iff)
qed

lemma round_half_even_nonneg: "0 \<le> y \<Longrightarrow> 0 \<le> round_half_even y"
  by (auto simp: round_half_even_def Let_def)

lemma floor_log2_lower:
  assumes "0 < x"
  shows "2 powi (floor_log2 x) \<le> x"
proof (cases "1 \<le> x")
  case True
  then have pos: "0 < \<lfloor>x\<rfloor>" by linarith
  from bitlen_bounds [OF pos] have le: "2 ^ nat (bitlen \<lfloor>x\<rfloor> - 1) \<le> \<lfloor>x\<rfloor>" by simp
  from pos have "bitlen \<lfloor>x\<rfloor> \<noteq> 0" by (simp add: bitlen_eq_zero_iff)
  with bitlen_nonneg [of "\<lfloor>x\<rfloor>"] have nn: "0 \<le> bitlen \<lfloor>x\<rfloor> - 1" by linarith
  have "(2::rat) ^ nat (bitlen \<lfloor>x\<rfloor> - 1) = of_int (2 ^ nat (bitlen \<lfloor>x\<rfloor> - 1))" by simp
  also have "\<dots> \<le> of_int \<lfloor>x\<rfloor>" using le by (simp only: of_int_le_iff)
  also have "\<dots> \<le> x" by linarith
  finally have "(2::rat) ^ nat (bitlen \<lfloor>x\<rfloor> - 1) \<le> x" .
  with True nn show ?thesis by (simp add: floor_log2_def power_int_def)
next
  case False
  with assms have big: "1 < 1 / x" by simp
  then have pos: "0 < \<lceil>1 / x\<rceil> - 1" by linarith
  let ?m = "bitlen (\<lceil>1 / x\<rceil> - 1)"
  from bitlen_bounds [OF pos] have "\<lceil>1 / x\<rceil> - 1 < 2 ^ nat ?m" by simp
  then have "\<lceil>1 / x\<rceil> \<le> 2 ^ nat ?m" by linarith
  then have "(of_int \<lceil>1 / x\<rceil> :: rat) \<le> of_int (2 ^ nat ?m)" by (simp only: of_int_le_iff)
  then have "1 / x \<le> 2 ^ nat ?m" by (simp add: ceiling_le_iff)
  with assms have "1 / 2 ^ nat ?m \<le> x"
    by (simp add: field_simps)
  moreover have "(2::rat) powi (- ?m) = 1 / 2 ^ nat ?m"
  proof -
    have "(2::rat) powi (- ?m) = 1 / 2 powi ?m" by (simp only: power_int_minus_divide)
    with bitlen_nonneg [of "\<lceil>1 / x\<rceil> - 1"] show ?thesis by (simp add: power_int_def)
  qed
  ultimately show ?thesis using False by (simp add: floor_log2_def)
qed

lemma floor_log2_upper:
  assumes "0 < x"
  shows "x < 2 powi (floor_log2 x + 1)"
proof (cases "1 \<le> x")
  case True
  then have pos: "0 < \<lfloor>x\<rfloor>" by linarith
  from bitlen_bounds [OF pos] have lt: "\<lfloor>x\<rfloor> < 2 ^ nat (bitlen \<lfloor>x\<rfloor>)" by simp
  then have "x < of_int (2 ^ nat (bitlen \<lfloor>x\<rfloor>))" by (simp only: floor_less_iff)
  then have "x < 2 ^ nat (bitlen \<lfloor>x\<rfloor>)" by simp
  with True bitlen_nonneg [of "\<lfloor>x\<rfloor>"] show ?thesis
    by (simp add: floor_log2_def power_int_def)
next
  case False
  with assms have big: "1 < 1 / x" by simp
  then have pos: "0 < \<lceil>1 / x\<rceil> - 1" by linarith
  let ?m = "bitlen (\<lceil>1 / x\<rceil> - 1)"
  from pos have "?m \<noteq> 0" by (simp add: bitlen_eq_zero_iff)
  with bitlen_nonneg [of "\<lceil>1 / x\<rceil> - 1"] have m: "1 \<le> ?m" by linarith
  from bitlen_bounds [OF pos] have "2 ^ nat (?m - 1) \<le> \<lceil>1 / x\<rceil> - 1" by simp
  then have "(of_int (2 ^ nat (?m - 1)) :: rat) \<le> of_int (\<lceil>1 / x\<rceil> - 1)"
    by (simp only: of_int_le_iff)
  moreover have "of_int (\<lceil>1 / x\<rceil> - 1) < 1 / x" by linarith
  ultimately have "2 ^ nat (?m - 1) < 1 / x" by simp
  with assms have "x < 1 / 2 ^ nat (?m - 1)"
    by (simp add: field_simps)
  moreover have "(2::rat) powi (- ?m + 1) = 1 / 2 ^ nat (?m - 1)"
  proof -
    have "- ?m + 1 = - (?m - 1)" by simp
    then have "(2::rat) powi (- ?m + 1) = 1 / 2 powi (?m - 1)"
      by (simp only: power_int_minus_divide)
    with m show ?thesis by (simp add: power_int_def)
  qed
  ultimately show ?thesis using False by (simp add: floor_log2_def)
qed

lemma floor_log2_less:
  assumes "0 < x" and "x < 2 powi k"
  shows "floor_log2 x < k"
proof (rule ccontr)
  assume "\<not> floor_log2 x < k"
  then have "k \<le> floor_log2 x" by simp
  then have "(2::rat) powi k \<le> 2 powi (floor_log2 x)"
    by (rule power_int_increasing) simp
  with floor_log2_lower [OF assms(1)] assms(2) show False by simp
qed

lemma double_of_error:
  assumes "x \<noteq> 0"
  shows "\<bar>double_of x - x\<bar> \<le> 2 powi (max (floor_log2 \<bar>x\<bar> - 52) (- 1074)) / 2"
proof -
  let ?u = "max (floor_log2 \<bar>x\<bar> - 52) (- 1074)"
  have pos: "(0::rat) < 2 powi ?u" by simp
  have "double_of x - x = (of_int (round_half_even (x / 2 powi ?u)) - x / 2 powi ?u) * 2 powi ?u"
    using assms pos by (simp add: double_of_def Let_def field_simps)
  then have "\<bar>double_of x - x\<bar>
      = \<bar>of_int (round_half_even (x / 2 powi ?u)) - x / 2 powi ?u\<bar> * 2 powi ?u"
    using pos by (simp add: abs_mult)
  also have "\<dots> \<le> 1 / 2 * 2 powi ?u"
    using round_half_even_error [of "x / 2 powi ?u"] pos
    by (intro mult_right_mono) simp_all
  finally show ?thesis by simp
qed

lemma double_of_nonneg: "0 \<le> x \<Longrightarrow> 0 \<le> double_of x"
  by (simp add: double_of_def Let_def round_half_even_nonneg)

lemma double_of_error_below:
  assumes "0 < x" and "x < 2 powi k" and "- 1021 \<le> k"
  shows "\<bar>double_of x - x\<bar> \<le> 2 powi (k - 54)"
proof -
  from floor_log2_less [OF assms(1,2)] assms(1) have "floor_log2 \<bar>x\<bar> < k" by simp
  with assms(3) have "max (floor_log2 \<bar>x\<bar> - 52) (- 1074) \<le> k - 53" by simp
  then have "(2::rat) powi (max (floor_log2 \<bar>x\<bar> - 52) (- 1074)) \<le> 2 powi (k - 53)"
    by (rule power_int_increasing) simp
  moreover have "(2::rat) powi (k - 53) / 2 = 2 powi (k - 54)"
    by (simp add: power_int_diff)
  ultimately show ?thesis
    using double_of_error [of x] assms(1) by simp
qed

lemma quotient_error:
  assumes "0 < q" and "q \<le> 1"
  shows "\<bar>double_of q - q\<bar> \<le> 1 / 2 ^ 53"
proof -
  have "q < 2 powi 1" using assms(2) by simp
  from double_of_error_below [OF assms(1) this] have "\<bar>double_of q - q\<bar> \<le> 2 powi (- 53)"
    by simp
  then show ?thesis by (simp add: power_int_minus_divide)
qed

lemma product_error:
  assumes "0 < p" and "p < 128"
  shows "\<bar>double_of p - p\<bar> \<le> 1 / 2 ^ 47"
proof -
  have "p < 2 powi 7" using assms(2) by simp
  from double_of_error_below [OF assms(1) this] have "\<bar>double_of p - p\<bar> \<le> 2 powi (- 47)"
    by simp
  then show ?thesis by (simp add: power_int_minus_divide)
qed

lemma abs_diff_upper: "\<bar>a - b\<bar> \<le> e \<Longrightarrow> a \<le> b + (e::rat)"
  by linarith

lemma two_step_error:
  assumes "\<bar>d1 - q\<bar> \<le> e1" and "\<bar>d2 - d1 * 100\<bar> \<le> (e2::rat)"
  shows "\<bar>d2 - 100 * q\<bar> \<le> e2 + 100 * e1"
  using assms by linarith

lemma score_error:
  assumes "0 \<le> q" and "q \<le> 1"
  shows "\<bar>double_of (double_of q * 100) - 100 * q\<bar> \<le> 1 / 2 ^ 45"
proof (cases "q = 0")
  case True
  then show ?thesis by (simp add: double_of_def)
next
  case False
  with assms(1) have pos: "0 < q" by simp
  note e1 = quotient_error [OF pos assms(2)]
  have d1: "0 \<le> double_of q" using assms(1) by (rule double_of_nonneg)
  have up: "double_of q * 100 < 128"
  proof -
    from e1 have "double_of q \<le> q + 1 / 2 ^ 53" by (rule abs_diff_upper)
    with assms(2) have "double_of q \<le> 1 + 1 / 2 ^ 53" by linarith
    also have "\<dots> < 128 / 100" by simp
    finally show ?thesis by simp
  qed
  have e2: "\<bar>double_of (double_of q * 100) - double_of q * 100\<bar> \<le> 1 / 2 ^ 47"
  proof (cases "double_of q = 0")
    case True
    then show ?thesis by (simp add: double_of_def)
  next
    case False
    with d1 have "0 < double_of q * 100" by simp
    from product_error [OF this up] show ?thesis .
  qed
  from e1 e2 have "\<bar>double_of (double_of q * 100) - 100 * q\<bar> \<le> 1 / 2 ^ 47 + 100 * (1 / 2 ^ 53)"
    by (rule two_step_error)
  also have "\<dots> \<le> 1 / 2 ^ 45" by simp
  finally show ?thesis .
qed

lemma count_correct_le: "count_correct qs \<le> length qs"
  by (simp add: count_correct_def)

lemma complete_session_outcome:
  assumes "sessions mgr session_id = Some s"
  shows "score_of (snd (complete_session mgr session_id now now_profile))
    = Some (if length (es_questions s) = 0 then 0
            else double_of (double_of (of_nat (count_correct (es_questions s))
                                        / of_nat (length (es_questions s))) * 100))"
  using assms by (simp add: complete_session_def Let_def count_correct_def score_of_def)

lemma double_of_eleven_twentieths: "double_of (double_of (11 / 20) * 100) = 55 + 1 / 2 ^ 47"
  by code_simp

lemma double_of_fifty_five: "double_of (100 * 11 / 20) = 55"
  by code_simp

lemma double_of_two_thirds:
  "double_of (double_of (2 / 3) * 100) = 2345624805922133 / 35184372088832"
  by code_simp

text \<open>
  C5, as stated, fails by the rounding of the two float operations: with 11 of 20
  questions right the program returns \<open>11 / 20 * 100\<close>, which is not 55 but the next double
  above it, \<open>55 + 2^(-47)\<close>, printed 55.00000000000001; \<open>100 * 11 / 20\<close> is 55, as a
  number and as a float.
\<close>

theorem complete_session_score_inexact:
  "length (es_questions (sample_session eleven_of_twenty)) = 20
   \<and> count_correct (es_questions (sample_session eleven_of_twenty)) = 11
   \<and> score_of (snd (complete_session (sample_manager eleven_of_twenty) ''s1'' 600 601))
       = Some (55 + 1 / 2 ^ 47)
   \<and> (100 * 11 / 20 :: rat) = 55
   \<and> double_of (100 * 11 / 20) = 55"
proof -
  have h: "sessions (sample_manager eleven_of_twenty) ''s1'' = Some (sample_session eleven_of_twenty)"
    by (simp add: sample_manager_def)
  have n: "length (es_questions (sample_session eleven_of_twenty)) = 20"
    "count_correct (es_questions (sample_session eleven_of_twenty)) = 11"
    by (simp_all add: sample_session_def eleven_of_twenty_def count_correct_def
        sample_question_def filter_replicate)
  have "score_of (snd (complete_session (sample_manager eleven_of_twenty) ''s1'' 600 601))
       = Some (55 + 1 / 2 ^ 47)"
    by (simp only: complete_session_outcome [OF h] n) (simp add: double_of_eleven_twentieths)
  with n double_of_fifty_five show ?thesis by simp
qed

text \<open>
  C5, amended. Completing an existing session with \<open>T\<close> questions, \<open>C\<close> of them with
  \<open>is_correct\<close> true, returns \<open>C\<close>, \<open>T\<close> and as score the float \<open>C / T * 100\<close>, that is the quotient
  rounded to a double, times 100, rounded again, or 0 when \<open>T = 0\<close>; the score is within
  \<open>2^(-45)\<close> of \<open>100 * C / T\<close>. The session is left with status \<open>completed\<close> and that
  score.
\<close>

theorem complete_session_float_score:
  assumes "sessions mgr session_id = Some s"
  shows "\<exists>mgr' r s'.
      complete_session mgr session_id now now_profile = (mgr', Inr r)
      \<and> cr_total r = int (length (es_questions s))
      \<and> cr_correct r = int (count_correct (es_questions s))
      \<and> cr_score r =
          (if length (es_questions s) = 0 then 0
           else double_of (double_of (of_nat (count_correct (es_questions s))
                                       / of_nat (length (es_questions s))) * 100))
      \<and> \<bar>cr_score r -
           (if length (es_questions s) = 0 then 0
            else 100 * of_nat (count_correct (es_questions s)) / of_nat (length (es_questions s)))\<bar>
          \<le> 1 / 2 ^ 45
      \<and> sessions mgr' session_id = Some s'
      \<and> es_status s' = ''completed''
      \<and> es_score s' = Some (cr_score r)"
proof -
  let ?T = "length (es_questions s)" and ?C = "count_correct (es_questions s)"
  let ?score = "if ?T = 0 then 0 else double_of (double_of (of_nat ?C / of_nat ?T) * 100)"
  have close: "\<bar>?score - (if ?T = 0 then 0 else 100 * of_nat ?C / of_nat ?T)\<bar> \<le> 1 / 2 ^ 45"
  proof (cases "?T = 0")
    case True
    then show ?thesis by simp
  next
    case False
    have "(0::rat) \<le> of_nat ?C / of_nat ?T" by simp
    moreover have "(of_nat ?C :: rat) / of_nat ?T \<le> 1"
      using False count_correct_le [of "es_questions s"] by (simp add: divide_le_eq_1)
    ultimately have "\<bar>double_of (double_of (of_nat ?C / of_nat ?T) * 100)
        - 100 * (of_nat ?C / of_nat ?T)\<bar> \<le> 1 / 2 ^ 45"
      by (rule score_error)
    with False show ?thesis by simp
  qed
  have run: "\<exists>mgr' r s'.
      complete_session mgr session_id now now_profile = (mgr', Inr r)
      \<and> cr_total r = int ?T \<and> cr_correct r = int ?C \<and> cr_score r = ?score
      \<and> sessions mgr' session_id = Some s'
      \<and> es_status s' = ''completed''
      \<and> es_score s' = Some (cr_score r)"
    using assms by (simp add: complete_session_def Let_def count_correct_def)
  then obtain mgr' r s' where
    "complete_session mgr session_id now now_profile = (mgr', Inr r)"
    "cr_total r = int ?T" "cr_correct r = int ?C" "cr_score r = ?score"
    "sessions mgr' session_id = Some s'" "es_status s' = ''completed''"
    "es_score s' = Some (cr_score r)"
    by blast
  with close show ?thesis by (intro exI [of _ mgr'] exI [of _ r] exI [of _ s']) simp
qed

theorem complete_session_float_score_witness:
  "sessions (sample_manager two_right_one_wrong) ''s1'' = Some (sample_session two_right_one_wrong)
   \<and> (\<exists>mgr' r s'.
      complete_session (sample_manager two_right_one_wrong) ''s1'' 600 601 = (mgr', Inr r)
      \<and> cr_total r = 3 \<and> cr_correct r = 2
      \<and> cr_score r = 2345624805922133 / 35184372088832
      \<and> sessions mgr' ''s1'' = Some s'
      \<and> es_status s' = ''completed''
      \<and> es_score s' = Some (2345624805922133 / 35184372088832))"
proof -
  let ?s = "sample_session two_right_one_wrong"
  have h1: "sessions (sample_manager two_right_one_wrong) ''s1'' = Some ?s"
    by (simp add: sample_manager_def)
  have n: "length (es_questions ?s) = 3" "count_correct (es_questions ?s) = 2"
    by (auto simp: sample_session_defs two_right_one_wrong_def)
  from complete_session_float_score [OF h1, of 600 601] obtain mgr' r s' where
    "complete_session (sample_manager two_right_one_wrong) ''s1'' 600 601 = (mgr', Inr r)"
    "cr_total r = 3" "cr_correct r = 2"
    "cr_score r = double_of (double_of (2 / 3) * 100)"
    "sessions mgr' ''s1'' = Some s'" "es_status s' = ''completed''"
    "es_score s' = Some (cr_score r)"
    unfolding n by auto
  then have "\<exists>mgr' r s'.
      complete_session (sample_manager two_right_one_wrong) ''s1'' 600 601 = (mgr', Inr r)
      \<and> cr_total r = 3 \<and> cr_correct r = 2
      \<and> cr_score r = 2345624805922133 / 35184372088832
      \<and> sessions mgr' ''s1'' = Some s'
      \<and> es_status s' = ''completed''
      \<and> es_score s' = Some (2345624805922133 / 35184372088832)"
    by (simp add: double_of_two_thirds)
  with h1 show ?thesis by (intro conjI)
qed

end
